theory Spec2Isabelle
  imports Complex_Main "HOL-Library.Sublist"
begin

section \<open>JavaScript values as the handler sees them\<close>

text \<open>
  The endpoint \<^verbatim>\<open>api/send-email.js\<close> receives a JSON payload, renders it into an HTML
  e-mail and hands the e-mail to an SMTP client. Its behaviour rests on the coercions of
  the language (\<^verbatim>\<open>||\<close>, \<^verbatim>\<open>String\<close>, \<^verbatim>\<open>Number\<close>, property reads), so these are
  modelled first, following ECMA-262; the functions of the file come after them under
  their own names.

  Strings are byte sequences in UTF-8 (the encoding of the source file and of the e-mail).
  The five characters that \<^verbatim>\<open>escapeHtml\<close> rewrites are ASCII, so working on bytes and
  working on UTF-16 code units give the same result for every well-formed string.
\<close>

subsection \<open>Numbers\<close>

text \<open>
  A JavaScript number is an IEEE 754 binary64 value. \<open>Fin q\<close> is the finite value \<open>q\<close>;
  the sign of zero is not kept: the program never divides, a zero is falsy whatever its
  sign, prints as \<^verbatim>\<open>0\<close>, and the running total starts from \<open>+0\<close>, so \<open>-0\<close> cannot be
  told from \<open>+0\<close> by anything this file computes.
\<close>

datatype jsnumber = NaN | PosInf | NegInf | Fin rat

definition bpow :: "int \<Rightarrow> int \<Rightarrow> rat" where
  "bpow b k = (if 0 \<le> k then of_int b ^ nat k else 1 / of_int b ^ nat (- k))"

text \<open>The number of digits of \<open>n\<close> in base \<open>b\<close>.\<close>

function num_digits :: "int \<Rightarrow> int \<Rightarrow> int" where
  "num_digits b n = (if n \<le> 0 \<or> b \<le> 1 then 0 else 1 + num_digits b (n div b))"
  by pat_completeness auto
termination
proof (relation "measure (\<lambda>(b, n). nat n)")
  show "wf (measure (\<lambda>(b, n). nat n))" by simp
next
  fix b n :: int
  assume "\<not> (n \<le> 0 \<or> b \<le> 1)"
  then have "0 < n" and "1 < b" by simp_all
  then have "n div b < n" by (rule int_div_less_self)
  moreover have "0 \<le> n div b"
    using \<open>0 < n\<close> \<open>1 < b\<close> by (simp add: pos_imp_zdiv_nonneg_iff)
  ultimately show "((b, n div b), (b, n)) \<in> measure (\<lambda>(b, n). nat n)"
    using \<open>0 < n\<close> by simp
qed

declare num_digits.simps [simp del]

text \<open>\<open>floor_log b q\<close> is the integer \<open>e\<close> with \<open>b ^ e \<le> q < b ^ (e + 1)\<close>, for \<open>q > 0\<close>.\<close>

definition floor_log :: "int \<Rightarrow> rat \<Rightarrow> int" where
  "floor_log b q =
     (let (n, d) = quotient_of q;
          g = num_digits b n - num_digits b d
      in if bpow b g \<le> q then g else g - 1)"

definition round_half_even :: "rat \<Rightarrow> int" where
  "round_half_even x =
     (let f = \<lfloor>x\<rfloor>; d = x - of_int f
      in if d < 1 / 2 then f else if 1 / 2 < d then f + 1 else if even f then f else f + 1)"

text \<open>
  Rounding of an exact result to binary64, to nearest with ties to even: 53 significant
  bits, the smallest unit \<open>2 ^ - 1074\<close> (subnormals), and an infinity when the rounded
  magnitude reaches \<open>2 ^ 1024\<close>.
\<close>

definition fl :: "rat \<Rightarrow> jsnumber" where
  "fl q =
     (if q = 0 then Fin 0
      else let u = max (floor_log 2 \<bar>q\<bar> - 52) (- 1074);
               r = of_int (round_half_even (\<bar>q\<bar> / bpow 2 u)) * bpow 2 u
           in if 1024 \<le> floor_log 2 r then (if 0 < q then PosInf else NegInf)
              else Fin (if 0 < q then r else - r))"

fun num_neg :: "jsnumber \<Rightarrow> jsnumber" where
  "num_neg NaN = NaN"
| "num_neg PosInf = NegInf"
| "num_neg NegInf = PosInf"
| "num_neg (Fin q) = Fin (- q)"

text \<open>The operators \<^verbatim>\<open>*\<close> and \<^verbatim>\<open>+\<close> on two numbers.\<close>

fun num_mul :: "jsnumber \<Rightarrow> jsnumber \<Rightarrow> jsnumber" where
  "num_mul NaN y = NaN"
| "num_mul x NaN = NaN"
| "num_mul (Fin a) (Fin b) = fl (a * b)"
| "num_mul (Fin a) y = (if a = 0 then NaN else if 0 < a then y else num_neg y)"
| "num_mul x (Fin b) = (if b = 0 then NaN else if 0 < b then x else num_neg x)"
| "num_mul x y = (if x = y then PosInf else NegInf)"

fun num_add :: "jsnumber \<Rightarrow> jsnumber \<Rightarrow> jsnumber" where
  "num_add NaN y = NaN"
| "num_add x NaN = NaN"
| "num_add (Fin a) (Fin b) = fl (a + b)"
| "num_add (Fin a) y = y"
| "num_add x (Fin b) = x"
| "num_add x y = (if x = y then x else NaN)"

subsection \<open>Number to string\<close>

definition digit_char :: "int \<Rightarrow> char" where
  "digit_char d = ''0123456789'' ! nat d"

text \<open>The decimal digits of a non-negative integer.\<close>

function digits10 :: "int \<Rightarrow> string" where
  "digits10 n = (if n < 10 then [digit_char n] else digits10 (n div 10) @ [digit_char (n mod 10)])"
  by pat_completeness auto
termination
  by (relation "measure nat") auto

declare digits10.simps [simp del]

text \<open>
  \<^verbatim>\<open>Number::toString\<close> prints the shortest decimal \<open>s \<times> 10 ^ (n - k)\<close>, with \<open>k\<close> digits
  \<open>s\<close>, that rounds back to the value; among the \<open>k\<close>-digit decimals that do, the closest
  to the value is taken. For a given \<open>k\<close> the closest ones are the neighbours of the value
  below and above, which is what \<open>decimal_candidates\<close> lists, as pairs \<open>(n, s)\<close>.
\<close>

definition rounds_to :: "rat \<Rightarrow> nat \<Rightarrow> int \<times> int \<Rightarrow> bool" where
  "rounds_to v k c =
     (case c of (n, s) \<Rightarrow>
        10 ^ (k - 1) \<le> s \<and> s < 10 ^ k \<and> fl (of_int s * bpow 10 (n - int k)) = Fin v)"

definition decimal_candidates :: "rat \<Rightarrow> nat \<Rightarrow> (int \<times> int) list" where
  "decimal_candidates v k =
     concat (map (\<lambda>n. filter (rounds_to v k)
                        [(n, \<lfloor>v / bpow 10 (n - int k)\<rfloor>),
                         (n, \<lfloor>v / bpow 10 (n - int k)\<rfloor> + 1)])
                 [floor_log 10 v + 1, floor_log 10 v + 2])"

definition decimal_error :: "rat \<Rightarrow> nat \<Rightarrow> int \<times> int \<Rightarrow> rat" where
  "decimal_error v k c = \<bar>of_int (snd c) * bpow 10 (fst c - int k) - v\<bar>"

fun closest_decimal :: "rat \<Rightarrow> nat \<Rightarrow> (int \<times> int) list \<Rightarrow> int \<times> int \<Rightarrow> int \<times> int" where
  "closest_decimal v k [] best = best"
| "closest_decimal v k (c # cs) best =
     closest_decimal v k cs
       (if decimal_error v k c < decimal_error v k best
          \<or> (decimal_error v k c = decimal_error v k best \<and> even (snd c) \<and> odd (snd best))
        then c else best)"

text \<open>
  The search for the least \<open>k\<close>, from \<open>k\<close> upwards over the next \<open>fuel\<close> values. Seventeen
  digits always suffice for a binary64 value; the first equation only makes the function
  total on rationals that are not binary64 values.
\<close>

fun shortest_from :: "rat \<Rightarrow> nat \<Rightarrow> nat \<Rightarrow> nat \<times> int \<times> int" where
  "shortest_from v k 0 =
     (k, floor_log 10 v + 1, \<lfloor>v / bpow 10 (floor_log 10 v + 1 - int k)\<rfloor>)"
| "shortest_from v k (Suc fuel) =
     (case decimal_candidates v k of
        [] \<Rightarrow> shortest_from v (Suc k) fuel
      | c # cs \<Rightarrow> (k, closest_decimal v k cs c))"

definition shortest_decimal :: "rat \<Rightarrow> nat \<times> int \<times> int" where
  "shortest_decimal v = shortest_from v 1 17"

definition format_decimal :: "nat \<times> int \<times> int \<Rightarrow> string" where
  "format_decimal t =
     (case t of (k, n, s) \<Rightarrow>
        let ds = digits10 s in
        if - 6 < n \<and> n \<le> 21 then
          (if int k \<le> n then ds @ replicate (nat (n - int k)) (CHR ''0'')
           else if 0 < n then take (nat n) ds @ ''.'' @ drop (nat n) ds
           else ''0.'' @ replicate (nat (- n)) (CHR ''0'') @ ds)
        else
          (let e = n - 1;
               ex = [if 0 \<le> e then CHR ''+'' else CHR ''-''] @ digits10 \<bar>e\<bar>
           in if k = 1 then ds @ ''e'' @ ex
              else take 1 ds @ ''.'' @ drop 1 ds @ ''e'' @ ex))"

fun NumberToString :: "jsnumber \<Rightarrow> string" where
  "NumberToString NaN = ''NaN''"
| "NumberToString PosInf = ''Infinity''"
| "NumberToString NegInf = ''-Infinity''"
| "NumberToString (Fin q) =
     (if q = 0 then ''0''
      else if q < 0 then ''-'' @ format_decimal (shortest_decimal (- q))
      else format_decimal (shortest_decimal q))"

declare NumberToString.simps(4) [simp del]

subsection \<open>String to number\<close>

text \<open>
  The white space and line terminators that \<^verbatim>\<open>StringToNumber\<close> trims, as UTF-8:
  TAB, LF, VT, FF, CR, SP, U+00A0, U+1680, U+2000 to U+200A, U+2028, U+2029, U+202F,
  U+205F, U+3000 and U+FEFF.
\<close>

definition white_space :: "string list" where
  "white_space =
     map (\<lambda>c. [c]) [CHR 0x09, CHR 0x0A, CHR 0x0B, CHR 0x0C, CHR 0x0D, CHR 0x20]
     @ [[CHR 0xC2, CHR 0xA0], [CHR 0xE1, CHR 0x9A, CHR 0x80]]
     @ map (\<lambda>c. [CHR 0xE2, CHR 0x80, c])
         [CHR 0x80, CHR 0x81, CHR 0x82, CHR 0x83, CHR 0x84, CHR 0x85, CHR 0x86, CHR 0x87,
          CHR 0x88, CHR 0x89, CHR 0x8A, CHR 0xA8, CHR 0xA9, CHR 0xAF]
     @ [[CHR 0xE2, CHR 0x81, CHR 0x9F], [CHR 0xE3, CHR 0x80, CHR 0x80],
        [CHR 0xEF, CHR 0xBB, CHR 0xBF]]"

function strip_seqs :: "string list \<Rightarrow> string \<Rightarrow> string" where
  "strip_seqs ws s =
     (case find (\<lambda>w. w \<noteq> [] \<and> prefix w s) ws of
        None \<Rightarrow> s
      | Some w \<Rightarrow> strip_seqs ws (drop (length w) s))"
  by pat_completeness auto
termination
proof (relation "measure (\<lambda>(ws, s). length s)")
  show "wf (measure (\<lambda>(ws, s). length s))" by simp
next
  fix ws :: "string list" and s w :: string
  assume "find (\<lambda>w. w \<noteq> [] \<and> prefix w s) ws = Some w"
  then have "w \<noteq> []" and "prefix w s"
    by (auto simp: find_Some_iff)
  then have "s \<noteq> []"
    by auto
  with \<open>w \<noteq> []\<close> show "((ws, drop (length w) s), (ws, s)) \<in> measure (\<lambda>(ws, s). length s)"
    by simp
qed

definition trim :: "string \<Rightarrow> string" where
  "trim s = rev (strip_seqs (map rev white_space) (rev (strip_seqs white_space s)))"

definition digit_value :: "char \<Rightarrow> int" where
  "digit_value c =
     (let n = of_char c
      in if 48 \<le> n \<and> n \<le> 57 then n - 48
         else if 97 \<le> n \<and> n \<le> 102 then n - 87
         else if 65 \<le> n \<and> n \<le> 70 then n - 55
         else 16)"

definition is_digit :: "char \<Rightarrow> bool" where
  "is_digit c = (digit_value c < 10)"

definition all_digits :: "int \<Rightarrow> string \<Rightarrow> bool" where
  "all_digits b ds = (ds \<noteq> [] \<and> list_all (\<lambda>c. digit_value c < b) ds)"

definition digits_value :: "int \<Rightarrow> string \<Rightarrow> int" where
  "digits_value b ds = foldl (\<lambda>a c. a * b + digit_value c) 0 ds"

text \<open>\<^verbatim>\<open>ExponentPart\<close>, when there is one: \<^verbatim>\<open>e\<close> or \<^verbatim>\<open>E\<close>, an optional sign, digits.\<close>

definition exponent_part :: "string \<Rightarrow> int option" where
  "exponent_part r =
     (case r of
        [] \<Rightarrow> Some 0
      | c # r' \<Rightarrow>
          if c = CHR ''e'' \<or> c = CHR ''E'' then
            (case r' of
               [] \<Rightarrow> None
             | d # r'' \<Rightarrow>
                 if d = CHR ''+'' then
                   (if all_digits 10 r'' then Some (digits_value 10 r'') else None)
                 else if d = CHR ''-'' then
                   (if all_digits 10 r'' then Some (- digits_value 10 r'') else None)
                 else if all_digits 10 r' then Some (digits_value 10 r') else None)
          else None)"

text \<open>
  \<^verbatim>\<open>StrUnsignedDecimalLiteral\<close>: \<^verbatim>\<open>Infinity\<close>, or digits with an optional fraction and
  exponent, with at least one digit before or after the point. Anything else is \<open>NaN\<close>.
\<close>

definition unsigned_decimal :: "string \<Rightarrow> jsnumber" where
  "unsigned_decimal s =
     (if s = ''Infinity'' then PosInf
      else let ip = takeWhile is_digit s;
               r1 = dropWhile is_digit s;
               dot = (take 1 r1 = ''.'');
               fp = (if dot then takeWhile is_digit (drop 1 r1) else []);
               r2 = (if dot then dropWhile is_digit (drop 1 r1) else r1)
           in if ip = [] \<and> fp = [] then NaN
              else case exponent_part r2 of
                     None \<Rightarrow> NaN
                   | Some e \<Rightarrow>
                       fl (of_int (digits_value 10 (ip @ fp)) * bpow 10 (e - int (length fp))))"

definition StringToNumber :: "string \<Rightarrow> jsnumber" where
  "StringToNumber str =
     (let t = trim str
      in if t = [] then Fin 0
         else if take 2 t = ''0x'' \<or> take 2 t = ''0X'' then
           (if all_digits 16 (drop 2 t) then fl (of_int (digits_value 16 (drop 2 t))) else NaN)
         else if take 2 t = ''0o'' \<or> take 2 t = ''0O'' then
           (if all_digits 8 (drop 2 t) then fl (of_int (digits_value 8 (drop 2 t))) else NaN)
         else if take 2 t = ''0b'' \<or> take 2 t = ''0B'' then
           (if all_digits 2 (drop 2 t) then fl (of_int (digits_value 2 (drop 2 t))) else NaN)
         else if take 1 t = ''+'' then unsigned_decimal (drop 1 t)
         else if take 1 t = ''-'' then num_neg (unsigned_decimal (drop 1 t))
         else unsigned_decimal t)"

subsection \<open>Values, exceptions and coercions\<close>

text \<open>
  The values that reach the handler come out of \<^verbatim>\<open>JSON.parse\<close> (or the framework's
  body parser): null, booleans, numbers, strings, arrays and plain objects.
  \<open>JUndefined\<close> is what reading a missing property gives. An object is the list of its
  own properties; \<open>map_of\<close> reads it.
\<close>

datatype jsvalue =
    JUndefined
  | JNull
  | JBool bool
  | JNumber jsnumber
  | JString string
  | JArray "jsvalue list"
  | JObject "(string \<times> jsvalue) list"

text \<open>
  A thrown exception is an \<^verbatim>\<open>Error\<close> object; the handler reads its \<^verbatim>\<open>message\<close> only.
  The messages of the engine's own errors are given in the wording of V8 (the engine of
  Node.js); no theorem below depends on the wording.
\<close>

datatype js_error = TypeError string | SyntaxError string | Error string

fun message :: "js_error \<Rightarrow> string" where
  "message (TypeError m) = m"
| "message (SyntaxError m) = m"
| "message (Error m) = m"

definition bindE :: "'e + 'a \<Rightarrow> ('a \<Rightarrow> 'e + 'b) \<Rightarrow> 'e + 'b" where
  "bindE x f = (case x of Inl e \<Rightarrow> Inl e | Inr v \<Rightarrow> f v)"

fun mapE :: "('a \<Rightarrow> 'e + 'b) \<Rightarrow> 'a list \<Rightarrow> 'e + 'b list" where
  "mapE f [] = Inr []"
| "mapE f (x # xs) = bindE (f x) (\<lambda>y. bindE (mapE f xs) (\<lambda>ys. Inr (y # ys)))"

fun foldE :: "('s \<Rightarrow> 'a \<Rightarrow> 'e + 's) \<Rightarrow> 's \<Rightarrow> 'a list \<Rightarrow> 'e + 's" where
  "foldE f s [] = Inr s"
| "foldE f s (x # xs) = bindE (f s x) (\<lambda>s'. foldE f s' xs)"

fun ToBoolean :: "jsvalue \<Rightarrow> bool" where
  "ToBoolean JUndefined = False"
| "ToBoolean JNull = False"
| "ToBoolean (JBool b) = b"
| "ToBoolean (JNumber n) = (n \<noteq> NaN \<and> n \<noteq> Fin 0)"
| "ToBoolean (JString s) = (s \<noteq> [])"
| "ToBoolean (JArray xs) = True"
| "ToBoolean (JObject kvs) = True"

text \<open>The operator \<^verbatim>\<open>a || b\<close>.\<close>

definition js_or :: "jsvalue \<Rightarrow> jsvalue \<Rightarrow> jsvalue" where
  "js_or a b = (if ToBoolean a then a else b)"

fun join :: "string \<Rightarrow> string list \<Rightarrow> string" where
  "join sep [] = []"
| "join sep [s] = s"
| "join sep (s # t # ss) = s @ sep @ join sep (t # ss)"

text \<open>
  \<^verbatim>\<open>ToString\<close>, which is what \<^verbatim>\<open>String(v)\<close> and a template literal apply. An array joins
  the strings of its elements with commas, null elements giving the empty string. A plain
  object gives \<^verbatim>\<open>[object Object]\<close> through \<^verbatim>\<open>Object.prototype.toString\<close>, unless it has an
  own property \<^verbatim>\<open>toString\<close>: a parsed value is never callable, so the conversion finds
  no method that returns a primitive and throws.
\<close>

fun ToString :: "jsvalue \<Rightarrow> js_error + string"
  and element_strings :: "jsvalue list \<Rightarrow> js_error + string list" where
  "ToString JUndefined = Inr ''undefined''"
| "ToString JNull = Inr ''null''"
| "ToString (JBool b) = Inr (if b then ''true'' else ''false'')"
| "ToString (JNumber n) = Inr (NumberToString n)"
| "ToString (JString s) = Inr s"
| "ToString (JArray xs) =
     (case element_strings xs of Inl e \<Rightarrow> Inl e | Inr ss \<Rightarrow> Inr (join '','' ss))"
| "ToString (JObject kvs) =
     (if map_of kvs ''toString'' \<noteq> None
      then Inl (TypeError ''Cannot convert object to primitive value'')
      else Inr ''[object Object]'')"
| "element_strings [] = Inr []"
| "element_strings (x # xs) =
     (case (if x = JUndefined \<or> x = JNull then Inr [] else ToString x) of
        Inl e \<Rightarrow> Inl e
      | Inr s \<Rightarrow> (case element_strings xs of Inl e \<Rightarrow> Inl e | Inr ss \<Rightarrow> Inr (s # ss)))"

text \<open>
  \<^verbatim>\<open>ToNumber\<close>, which is what \<^verbatim>\<open>Number(v)\<close> applies. Arrays and objects are first
  converted to a primitive: \<^verbatim>\<open>valueOf\<close> returns the object itself, so the string is used.
\<close>

fun ToNumber :: "jsvalue \<Rightarrow> js_error + jsnumber" where
  "ToNumber JUndefined = Inr NaN"
| "ToNumber JNull = Inr (Fin 0)"
| "ToNumber (JBool b) = Inr (Fin (if b then 1 else 0))"
| "ToNumber (JNumber n) = Inr n"
| "ToNumber (JString s) = Inr (StringToNumber s)"
| "ToNumber v = bindE (ToString v) (\<lambda>s. Inr (StringToNumber s))"

text \<open>
  Reading a property \<^verbatim>\<open>v.k\<close>. Reading from \<^verbatim>\<open>null\<close> or \<^verbatim>\<open>undefined\<close> throws. The names
  the handler reads (\<^verbatim>\<open>title\<close>, \<^verbatim>\<open>qty\<close>, \<^verbatim>\<open>price\<close>, \<^verbatim>\<open>order_number\<close>, \<^verbatim>\<open>order_name\<close>,
  \<^verbatim>\<open>phone\<close>, \<^verbatim>\<open>shipping_address\<close>, \<^verbatim>\<open>id\<close>, \<^verbatim>\<open>orderMeta\<close>, \<^verbatim>\<open>items\<close>) are defined on no
  built-in prototype, so a primitive or an array has none of them and an object has those
  it owns.
\<close>

fun Get :: "jsvalue \<Rightarrow> string \<Rightarrow> js_error + jsvalue" where
  "Get JUndefined k =
     Inl (TypeError (''Cannot read properties of undefined (reading '' @ [CHR 0x27] @ k @ [CHR 0x27] @ '')''))"
| "Get JNull k =
     Inl (TypeError (''Cannot read properties of null (reading '' @ [CHR 0x27] @ k @ [CHR 0x27] @ '')''))"
| "Get (JObject kvs) k = Inr (case map_of kvs k of None \<Rightarrow> JUndefined | Some v \<Rightarrow> v)"
| "Get v k = Inr JUndefined"

section \<open>Rendering: \<^verbatim>\<open>escapeHtml\<close> and \<^verbatim>\<open>buildHtml\<close>\<close>

text \<open>
  \<^verbatim>\<open>String(s).replace(/[&<>"']/g, c => ...)\<close>: each of the five characters is replaced by
  its entity, every other character is kept. The parameter defaults to the empty string
  when the argument is \<^verbatim>\<open>undefined\<close>.
\<close>

definition escape_char :: "char \<Rightarrow> string" where
  "escape_char c =
     (if c = CHR ''&'' then ''&amp;''
      else if c = CHR ''<'' then ''&lt;''
      else if c = CHR ''>'' then ''&gt;''
      else if c = CHR 0x22 then ''&quot;''
      else if c = CHR 0x27 then ''&#39;''
      else [c])"

definition replace_special :: "string \<Rightarrow> string" where
  "replace_special str = concat (map escape_char str)"

definition escapeHtml :: "jsvalue \<Rightarrow> js_error + string" where
  "escapeHtml s =
     bindE (ToString (if s = JUndefined then JString [] else s))
       (\<lambda>str. Inr (replace_special str))"

text \<open>The template literal of one table row, with its three holes.\<close>

definition row_html :: "string \<Rightarrow> string \<Rightarrow> string \<Rightarrow> string" where
  \<open>row_html title qty price =
     ''<tr><td style="padding:6px 8px;border-bottom:1px solid #eee">'' @ title
     @ ''</td><td style="padding:6px 8px;border-bottom:1px solid #eee;text-align:center">'' @ qty
     @ ''</td><td style="padding:6px 8px;border-bottom:1px solid #eee;text-align:right">'' @ price
     @ ''</td></tr>''\<close>

text \<open>
  The callback of \<^verbatim>\<open>items.map\<close>: the three cells of an entry \<open>it\<close>. Reading a property
  of \<^verbatim>\<open>null\<close> throws, and so does \<^verbatim>\<open>String\<close> on an object without a usable
  \<^verbatim>\<open>toString\<close>.
\<close>

definition row :: "jsvalue \<Rightarrow> js_error + string" where
  "row it =
     bindE (Get it ''title'') (\<lambda>t.
     bindE (escapeHtml (js_or t (JString []))) (\<lambda>title.
     bindE (Get it ''qty'') (\<lambda>q.
     bindE (ToString (js_or q (JNumber (Fin 1)))) (\<lambda>qs.
     bindE (escapeHtml (JString qs)) (\<lambda>qty.
     bindE (Get it ''price'') (\<lambda>p.
     bindE (ToString (js_or p (JString []))) (\<lambda>ps.
     bindE (escapeHtml (JString ps)) (\<lambda>pe.
     Inr (row_html title qty (pe @ '' XOF''))))))))))"

text \<open>
  \<^verbatim>\<open>(items || []).map\<close> and \<^verbatim>\<open>(items || []).reduce\<close> exist on arrays only; on any other
  value the property is \<^verbatim>\<open>undefined\<close> (or not callable) and the call throws.
\<close>

definition array_method :: "string \<Rightarrow> jsvalue \<Rightarrow> js_error + jsvalue list" where
  "array_method name v =
     (case v of
        JArray xs \<Rightarrow> Inr xs
      | _ \<Rightarrow> Inl (TypeError (''(items || []).'' @ name @ '' is not a function'')))"

definition rows :: "jsvalue \<Rightarrow> js_error + string" where
  "rows items =
     bindE (array_method ''map'' (js_or items (JArray []))) (\<lambda>xs.
     bindE (mapE row xs) (\<lambda>rs. Inr (concat rs)))"

text \<open>The callback of \<^verbatim>\<open>reduce\<close> adds \<^verbatim>\<open>Number(i.price||0) * Number(i.qty||1)\<close> to the sum.\<close>

definition line_amount :: "jsvalue \<Rightarrow> js_error + jsnumber" where
  "line_amount i =
     bindE (Get i ''price'') (\<lambda>p.
     bindE (ToNumber (js_or p (JNumber (Fin 0)))) (\<lambda>pn.
     bindE (Get i ''qty'') (\<lambda>q.
     bindE (ToNumber (js_or q (JNumber (Fin 1)))) (\<lambda>qn.
     Inr (num_mul pn qn)))))"

definition total' :: "jsvalue \<Rightarrow> js_error + jsnumber" where
  "total' items =
     bindE (array_method ''reduce'' (js_or items (JArray []))) (\<lambda>xs.
     foldE (\<lambda>s i. bindE (line_amount i) (\<lambda>a. Inr (num_add s a))) (Fin 0) xs)"

text \<open>The template literal of the document, with its seven holes.\<close>

definition document_html ::
  "string \<Rightarrow> string \<Rightarrow> string \<Rightarrow> string \<Rightarrow> string \<Rightarrow> string \<Rightarrow> string \<Rightarrow> string" where
  \<open>document_html order_number order_name phone shipping_address rows_html total_text order_id =
     ''\<newline>    <div style="font-family:Arial,Helvetica,sans-serif;color:#0b2a3a">\<newline>      <h2>Nouvelle commande ''
     @ order_number
     @ ''</h2>\<newline>      <p><strong>Client :</strong> ''
     @ order_name
     @ ''</p>\<newline>      <p><strong>T'' @ [CHR 0xC3, CHR 0xA9] @ ''l :</strong> ''
     @ phone
     @ '' '' @ [CHR 0xE2, CHR 0x80, CHR 0x94] @ '' <strong>Adresse :</strong> ''
     @ shipping_address
     @ ''</p>\<newline>      <table style="width:100%;border-collapse:collapse;margin-top:12px">\<newline>        <thead>\<newline>          <tr><th style="text-align:left;padding:6px 8px;border-bottom:2px solid #ccc">Article</th><th style="padding:6px 8px;border-bottom:2px solid #ccc">Qt'' @ [CHR 0xC3, CHR 0xA9] @ ''</th><th style="padding:6px 8px;border-bottom:2px solid #ccc;text-align:right">Prix</th></tr>\<newline>        </thead>\<newline>        <tbody>\<newline>          ''
     @ rows_html
     @ ''\<newline>          <tr><td colspan="2" style="padding:8px;text-align:right"><strong>Total</strong></td><td style="padding:8px;text-align:right"><strong>''
     @ total_text
     @ '' XOF</strong></td></tr>\<newline>        </tbody>\<newline>      </table>\<newline>      <p style="margin-top:14px;color:#6b7b8f">ID commande interne: ''
     @ order_id
     @ ''</p>\<newline>    </div>\<newline>  ''\<close>

definition buildHtml :: "jsvalue \<Rightarrow> jsvalue \<Rightarrow> js_error + string" where
  "buildHtml orderMeta items =
     bindE (rows items) (\<lambda>rows_html.
     bindE (total' items) (\<lambda>total.
     bindE (Get orderMeta ''order_number'') (\<lambda>v1.
     bindE (escapeHtml (js_or v1 (JString []))) (\<lambda>order_number.
     bindE (Get orderMeta ''order_name'') (\<lambda>v2.
     bindE (escapeHtml (js_or v2 (JString []))) (\<lambda>order_name.
     bindE (Get orderMeta ''phone'') (\<lambda>v3.
     bindE (escapeHtml (js_or v3 (JString []))) (\<lambda>phone.
     bindE (Get orderMeta ''shipping_address'') (\<lambda>v4.
     bindE (escapeHtml (js_or v4 (JString []))) (\<lambda>shipping_address.
     bindE (ToString (JNumber total)) (\<lambda>ts.
     bindE (escapeHtml (JString ts)) (\<lambda>total_text.
     bindE (Get orderMeta ''id'') (\<lambda>v5.
     bindE (ToString (js_or v5 (JString []))) (\<lambda>ids.
     bindE (escapeHtml (JString ids)) (\<lambda>order_id.
     Inr (document_html order_number order_name phone shipping_address
            rows_html total_text order_id))))))))))))))))"

section \<open>Reading the rendered document\<close>

text \<open>
  The notions the statements about the document use. None of them is part of the program.

  The four characters that open or close markup, and the five entities that
  \<^verbatim>\<open>escapeHtml\<close> writes. A string is escaped when it has none of the four characters and
  each of its ampersands starts one of the five entities.
\<close>

definition markup_char :: "char \<Rightarrow> bool" where
  "markup_char c = (c = CHR ''<'' \<or> c = CHR ''>'' \<or> c = CHR 0x22 \<or> c = CHR 0x27)"

definition entity_names :: "string list" where
  "entity_names = [''amp;'', ''lt;'', ''gt;'', ''quot;'', ''#39;'']"

fun entities_only :: "string \<Rightarrow> bool" where
  "entities_only [] = True"
| "entities_only (c # cs) =
     ((c \<noteq> CHR ''&'' \<or> list_ex (\<lambda>n. prefix n cs) entity_names) \<and> entities_only cs)"



text \<open>A character that \<^verbatim>\<open>escapeHtml\<close> leaves as it is.\<close>

definition plain_char :: "char \<Rightarrow> bool" where
  "plain_char c = (escape_char c = [c])"

text \<open>
  \<open>field_text v k d\<close> is the string of \<^verbatim>\<open>v.k || d\<close>. The three strings \<open>(t, q, p)\<close> of an
  entry are those of its title, quantity and price with the defaults of the row, and
  \<open>cells_html\<close> is the row that \<^verbatim>\<open>buildHtml\<close> makes of them.
\<close>

definition field_text :: "jsvalue \<Rightarrow> string \<Rightarrow> jsvalue \<Rightarrow> js_error + string" where
  "field_text v k d = bindE (Get v k) (\<lambda>x. ToString (js_or x d))"

definition row_cells :: "jsvalue \<Rightarrow> string \<times> string \<times> string \<Rightarrow> bool" where
  "row_cells it c =
     (case c of (t, q, p) \<Rightarrow>
        field_text it ''title'' (JString []) = Inr t \<and>
        field_text it ''qty'' (JNumber (Fin 1)) = Inr q \<and>
        field_text it ''price'' (JString []) = Inr p)"

definition cells_html :: "string \<times> string \<times> string \<Rightarrow> string" where
  "cells_html c =
     (case c of (t, q, p) \<Rightarrow>
        row_html (replace_special t) (replace_special q) (replace_special p @ '' XOF''))"

text \<open>The values the claim about non-object entries names: strings, numbers, booleans.\<close>

fun primitive :: "jsvalue \<Rightarrow> bool" where
  "primitive (JString s) = True"
| "primitive (JNumber n) = True"
| "primitive (JBool b) = True"
| "primitive v = False"

text \<open>
  The number a field counts as in the total, with default \<open>d\<close>: a falsy value counts as
  the default, any other value as \<^verbatim>\<open>Number\<close> of it.
\<close>

definition counted :: "jsnumber \<Rightarrow> jsvalue \<Rightarrow> js_error + jsnumber" where
  "counted d v = (if ToBoolean v then ToNumber v else Inr d)"

text \<open>
  The total as the specification words it: the sum of price times quantity, where a price
  that is missing or is not a number counts 0 and a quantity that is missing or is not a
  number counts 1.
\<close>

definition claimed_number :: "jsnumber \<Rightarrow> js_error + jsvalue \<Rightarrow> jsnumber" where
  "claimed_number d x =
     (case x of
        Inr (JNumber n) \<Rightarrow> if n = NaN then d else n
      | _ \<Rightarrow> d)"

definition claimed_total :: "jsvalue list \<Rightarrow> jsnumber" where
  "claimed_total xs =
     foldl num_add (Fin 0)
       (map (\<lambda>i. num_mul (claimed_number (Fin 0) (Get i ''price''))
                          (claimed_number (Fin 1) (Get i ''qty''))) xs)"

section \<open>Configuration\<close>

text \<open>
  The five environment variables, each a string or unset, and the module-level constants
  computed from them when the module is loaded.
\<close>

record env =
  SMTP_HOST :: "string option"
  SMTP_PORT :: "string option"
  SMTP_USER :: "string option"
  SMTP_PASS :: "string option"
  EMAIL_TO :: "string option"

definition env_value :: "string option \<Rightarrow> jsvalue" where
  "env_value x = (case x of None \<Rightarrow> JUndefined | Some s \<Rightarrow> JString s)"

definition host :: "env \<Rightarrow> jsvalue" where
  "host e = js_or (env_value (SMTP_HOST e)) (JString ''smtp.gmail.com'')"

definition port :: "env \<Rightarrow> jsvalue" where
  "port e =
     (case SMTP_PORT e of
        None \<Rightarrow> JNumber (Fin 587)
      | Some s \<Rightarrow> if ToBoolean (JString s) then JNumber (StringToNumber s) else JNumber (Fin 587))"

definition user :: "env \<Rightarrow> jsvalue" where
  "user e = env_value (SMTP_USER e)"

definition pass :: "env \<Rightarrow> jsvalue" where
  "pass e = env_value (SMTP_PASS e)"

definition destination :: "env \<Rightarrow> jsvalue" where
  "destination e = js_or (env_value (EMAIL_TO e)) (env_value (SMTP_USER e))"

section \<open>The handler\<close>

subsection \<open>Requests, responses and what the handler does to the outside\<close>

text \<open>
  An awaited promise resolves, rejects, or never settles (the handler sets no timeout).
\<close>

datatype 'a outcome = Resolves 'a | Rejects js_error | Pending

text \<open>
  The request stream, as \<^verbatim>\<open>getRawBody\<close> observes it: the chunks of its \<^verbatim>\<open>data\<close> events,
  then an \<^verbatim>\<open>end\<close> event, an \<^verbatim>\<open>error\<close> event, or neither.
\<close>

datatype stream_end = EndEvent | ErrorEvent js_error | NoEvent

record raw_stream =
  chunks :: "string list"
  ending :: stream_end

record request =
  req_method :: string
  body :: jsvalue
  stream :: raw_stream

record response =
  status :: nat
  headers :: "(string \<times> string) list"
  json :: jsvalue

record transport_options =
  opt_host :: jsvalue
  opt_port :: jsvalue
  secure :: bool
  auth_user :: jsvalue
  auth_pass :: jsvalue

record mail_options =
  mail_from :: string
  mail_to :: jsvalue
  subject :: string
  html :: string

record sent_info =
  messageId :: string
  accepted :: "string list"

text \<open>
  What lies outside the file: the JSON parser of the engine and the SMTP client
  (\<^verbatim>\<open>nodemailer\<close>). Of \<^verbatim>\<open>JSON.parse\<close> the model fixes one fact, that the empty text is
  a syntax error; on any other text it is the parameter \<open>parse_text\<close>. The two network
  calls are functions of their arguments.
\<close>

record runtime =
  parse_text :: "string \<Rightarrow> js_error + jsvalue"
  verify :: "transport_options \<Rightarrow> unit outcome"
  sendMail :: "transport_options \<Rightarrow> mail_options \<Rightarrow> sent_info outcome"

definition JSON_parse :: "runtime \<Rightarrow> string \<Rightarrow> js_error + jsvalue" where
  "JSON_parse rt text =
     (if text = [] then Inl (SyntaxError ''Unexpected end of JSON input'')
      else parse_text rt text)"

text \<open>The observable actions of one invocation, in order.\<close>

datatype event =
    ConsoleError string "js_error option"
  | ConsoleWarn string string
  | ReadStream
  | CreateTransport transport_options
  | TransportVerify transport_options
  | TransportSendMail transport_options mail_options

type_synonym 'a io = "event list \<times> 'a outcome"

definition io_return :: "'a \<Rightarrow> 'a io" where
  "io_return v = ([], Resolves v)"

definition io_emit :: "event \<Rightarrow> unit io" where
  "io_emit ev = ([ev], Resolves ())"

definition io_lift :: "js_error + 'a \<Rightarrow> 'a io" where
  "io_lift x = (case x of Inl e \<Rightarrow> ([], Rejects e) | Inr v \<Rightarrow> ([], Resolves v))"

definition io_await :: "'a outcome \<Rightarrow> 'a io" where
  "io_await p = ([], p)"

definition io_bind :: "'a io \<Rightarrow> ('a \<Rightarrow> 'b io) \<Rightarrow> 'b io" where
  "io_bind m f =
     (case m of
        (evs, Resolves v) \<Rightarrow> (case f v of (evs', r) \<Rightarrow> (evs @ evs', r))
      | (evs, Rejects e) \<Rightarrow> (evs, Rejects e)
      | (evs, Pending) \<Rightarrow> (evs, Pending))"

text \<open>\<^verbatim>\<open>try { m } catch (e) { h e }\<close>.\<close>

definition io_catch :: "'a io \<Rightarrow> (js_error \<Rightarrow> 'a io) \<Rightarrow> 'a io" where
  "io_catch m h =
     (case m of
        (evs, Rejects e) \<Rightarrow> (case h e of (evs', r) \<Rightarrow> (evs @ evs', r))
      | (evs, r) \<Rightarrow> (evs, r))"

subsection \<open>\<^verbatim>\<open>getRawBody\<close> and \<^verbatim>\<open>handler\<close>\<close>

definition getRawBody :: "request \<Rightarrow> string io" where
  "getRawBody req =
     io_bind (io_emit ReadStream) (\<lambda>_.
     io_await (case ending (stream req) of
                 EndEvent \<Rightarrow> Resolves (concat (chunks (stream req)))
               | ErrorEvent err \<Rightarrow> Rejects err
               | NoEvent \<Rightarrow> Pending))"

text \<open>
  \<^verbatim>\<open>Object.keys(v)\<close> for a truthy \<open>v\<close>: the own properties of an object, the indices of an
  array or of a string (one per character of the model's string), none for a number or a
  boolean.
\<close>

fun Object_keys :: "jsvalue \<Rightarrow> string list" where
  "Object_keys (JObject kvs) = remdups (map fst kvs)"
| "Object_keys (JArray xs) = map (\<lambda>i. digits10 (int i)) [0..<length xs]"
| "Object_keys (JString s) = map (\<lambda>i. digits10 (int i)) [0..<length s]"
| "Object_keys v = []"

text \<open>
  \<^verbatim>\<open>req.body && Object.keys(req.body).length ? req.body : JSON.parse(await getRawBody(req))\<close>
\<close>

definition read_body :: "runtime \<Rightarrow> request \<Rightarrow> jsvalue io" where
  "read_body rt req =
     (if ToBoolean (body req) \<and> length (Object_keys (body req)) \<noteq> 0
      then io_return (body req)
      else io_bind (getRawBody req) (\<lambda>raw. io_lift (JSON_parse rt raw)))"

text \<open>
  One property of the destructuring \<^verbatim>\<open>const { orderMeta, items } = body\<close>, which throws
  when the body is \<^verbatim>\<open>null\<close>.
\<close>

definition destructure :: "jsvalue \<Rightarrow> string \<Rightarrow> js_error + jsvalue" where
  "destructure v k =
     (if v = JUndefined \<or> v = JNull then
        Inl (TypeError (''Cannot destructure property '' @ [CHR 0x27] @ k @ [CHR 0x27]
                          @ '' of '' @ [CHR 0x27] @ ''body'' @ [CHR 0x27] @ '' as it is ''
                          @ (if v = JNull then ''null'' else ''undefined'') @ ''.''))
      else Get v k)"

text \<open>\<^verbatim>\<open>orderMeta?.order_number\<close>\<close>

definition optional_get :: "jsvalue \<Rightarrow> string \<Rightarrow> js_error + jsvalue" where
  "optional_get v k = (if v = JUndefined \<or> v = JNull then Inr JUndefined else Get v k)"

text \<open>The argument of \<^verbatim>\<open>nodemailer.createTransport\<close> and the \<^verbatim>\<open>mailOptions\<close> object.\<close>

definition transporter :: "env \<Rightarrow> transport_options" where
  "transporter e =
     \<lparr>opt_host = host e, opt_port = port e, secure = (port e = JNumber (Fin 465)),
      auth_user = user e, auth_pass = pass e\<rparr>"

definition mailOptions :: "env \<Rightarrow> string \<Rightarrow> string \<Rightarrow> string \<Rightarrow> mail_options" where
  \<open>mailOptions e user_text number_text html_text =
     \<lparr>mail_from = ''"Medical Shop" <'' @ user_text @ ''>'',
      mail_to = destination e,
      subject = ''Nouvelle commande '' @ number_text,
      html = html_text\<rparr>\<close>

definition success_response :: "sent_info \<Rightarrow> response" where
  "success_response info =
     \<lparr>status = 200, headers = [],
      json = JObject [(''ok'', JBool True),
                      (''messageId'', JString (messageId info)),
                      (''accepted'', JArray (map JString (accepted info)))]\<rparr>"

definition error_response :: "js_error \<Rightarrow> response" where
  "error_response err =
     \<lparr>status = 500, headers = [],
      json = JObject [(''error'', js_or (JString (message err)) (JString ''send failed''))]\<rparr>"

text \<open>The inner \<^verbatim>\<open>try\<close>: the connection check, whose failure is logged and dropped.\<close>

definition verify_step :: "env \<Rightarrow> runtime \<Rightarrow> unit io" where
  "verify_step e rt =
     io_catch
       (io_bind (io_emit (TransportVerify (transporter e))) (\<lambda>_.
        io_await (verify rt (transporter e))))
       (\<lambda>verifyErr. io_emit (ConsoleWarn ''SMTP verify warning:'' (message verifyErr)))"

text \<open>The body of the outer \<^verbatim>\<open>try\<close>.\<close>

definition try_block :: "env \<Rightarrow> runtime \<Rightarrow> request \<Rightarrow> response io" where
  "try_block e rt req =
     io_bind (read_body rt req) (\<lambda>parsed.
     io_bind (io_lift (destructure parsed ''orderMeta'')) (\<lambda>orderMeta.
     io_bind (io_lift (destructure parsed ''items'')) (\<lambda>items.
     io_bind (io_emit (CreateTransport (transporter e))) (\<lambda>_.
     io_bind (verify_step e rt) (\<lambda>_.
     io_bind (io_lift (buildHtml (js_or orderMeta (JObject [])) (js_or items (JArray []))))
       (\<lambda>html_text.
     io_bind (io_lift (optional_get orderMeta ''order_number'')) (\<lambda>num.
     io_bind (io_lift (ToString (js_or num (JString [])))) (\<lambda>number_text.
     io_bind (io_lift (ToString (user e))) (\<lambda>user_text.
     io_bind (io_emit (TransportSendMail (transporter e)
                         (mailOptions e user_text number_text html_text))) (\<lambda>_.
     io_bind (io_await (sendMail rt (transporter e)
                          (mailOptions e user_text number_text html_text))) (\<lambda>info.
     io_return (success_response info))))))))))))"

text \<open>
  The handler returns the actions it performed and the response it sent, if it sent one:
  a promise that never settles leaves the request unanswered.
\<close>

definition handler :: "env \<Rightarrow> runtime \<Rightarrow> request \<Rightarrow> event list \<times> response option" where
  "handler e rt req =
     (if req_method req \<noteq> ''POST'' then
        ([], Some \<lparr>status = 405, headers = [(''Allow'', ''POST'')],
                   json = JObject [(''error'', JString ''Method not allowed'')]\<rparr>)
      else if \<not> ToBoolean (user e) \<or> \<not> ToBoolean (pass e) then
        ([ConsoleError ''SMTP credentials not configured (SMTP_USER/SMTP_PASS)'' None],
         Some \<lparr>status = 500, headers = [],
               json = JObject [(''error'', JString ''SMTP credentials not configured'')]\<rparr>)
      else
        (case try_block e rt req of
           (evs, Resolves r) \<Rightarrow> (evs, Some r)
         | (evs, Rejects err) \<Rightarrow>
             (evs @ [ConsoleError ''api/send-email error'' (Some err)], Some (error_response err))
         | (evs, Pending) \<Rightarrow> (evs, None)))"

section \<open>Example inputs\<close>

text \<open>
  A configuration with an account and its secret and nothing else set, a runtime whose two
  network calls have given outcomes, and requests with a given method and parsed body
  whose stream has ended without data.
\<close>

definition example_env :: env where
  "example_env =
     \<lparr>SMTP_HOST = None, SMTP_PORT = None, SMTP_USER = Some ''shop@example.com'',
      SMTP_PASS = Some ''app-password'', EMAIL_TO = None\<rparr>"

definition example_runtime :: "unit outcome \<Rightarrow> sent_info outcome \<Rightarrow> runtime" where
  "example_runtime v s =
     \<lparr>parse_text = (\<lambda>text. Inl (SyntaxError ''Unexpected token'')),
      verify = (\<lambda>t. v), sendMail = (\<lambda>t m. s)\<rparr>"

definition example_info :: sent_info where
  "example_info = \<lparr>messageId = ''<1@example.com>'', accepted = [''shop@example.com'']\<rparr>"

definition example_body :: jsvalue where
  "example_body =
     JObject [(''orderMeta'', JObject [(''order_number'', JString ''42'')]),
              (''items'', JArray [])]"

text \<open>The two line items of the specification's example.\<close>

definition example_items :: "jsvalue list" where
  "example_items =
     [JObject [(''title'', JString ''A''), (''qty'', JNumber (Fin 2)),
               (''price'', JNumber (Fin 500))],
      JObject [(''title'', JString ''B''), (''qty'', JNumber (Fin 1)),
               (''price'', JNumber (Fin 1000))]]"

definition example_request :: "string \<Rightarrow> jsvalue \<Rightarrow> request" where
  "example_request m b =
     \<lparr>req_method = m, body = b, stream = \<lparr>chunks = [], ending = EndEvent\<rparr>\<rparr>"

text \<open>
  POST requests whose parsed body is the empty object and whose stream delivers given
  chunks and a given ending; the text of an order, and a runtime whose parser accepts
  that text and no other.
\<close>

definition stream_request :: "string list \<Rightarrow> stream_end \<Rightarrow> request" where
  "stream_request cs en =
     \<lparr>req_method = ''POST'', body = JObject [], stream = \<lparr>chunks = cs, ending = en\<rparr>\<rparr>"

definition example_text :: string where
  \<open>example_text = ''{"orderMeta":{"order_number":"42"},"items":[]}''\<close>

definition parsing_runtime :: runtime where
  "parsing_runtime =
     \<lparr>parse_text = (\<lambda>text. if text = example_text then Inr example_body
                            else Inl (SyntaxError ''Unexpected token'')),
      verify = (\<lambda>t. Resolves ()), sendMail = (\<lambda>t m. Resolves example_info)\<rparr>"

section \<open>Facts about the coercions and the sequence of actions\<close>

lemma text_of_0 [simp]: "NumberToString (Fin 0) = ''0''"
  by (simp add: NumberToString.simps(4))

lemma bindE_simps [simp]: "bindE (Inr v) f = f v" "bindE (Inl err) f = Inl err"
  by (simp_all add: bindE_def)

lemma bindE_Inr_iff: "bindE x f = Inr r \<longleftrightarrow> (\<exists>v. x = Inr v \<and> f v = Inr r)"
  by (cases x) simp_all

lemma bindE_Inl_iff:
  "bindE x f = Inl err \<longleftrightarrow> x = Inl err \<or> (\<exists>v. x = Inr v \<and> f v = Inl err)"
  by (cases x) simp_all

lemma js_or_simps [simp]:
  "js_or (JObject kvs) b = JObject kvs" "js_or (JArray xs) b = JArray xs"
  "js_or JUndefined b = b" "js_or JNull b = b"
  "js_or (JString s) b = (if s = [] then b else JString s)"
  "js_or (JNumber n) b = (if n = NaN \<or> n = Fin 0 then b else JNumber n)"
  "js_or (JBool c) b = (if c then JBool c else b)"
  by (simp_all add: js_or_def)

lemma io_bind_simps [simp]:
  "io_bind (evs, Resolves v) f = (evs @ fst (f v), snd (f v))"
  "io_bind (evs, Rejects err) f = (evs, Rejects err)"
  "io_bind (evs, Pending) f = (evs, Pending)"
  by (simp_all add: io_bind_def split: prod.splits)

lemma io_bind_lift [simp]:
  "io_bind (io_lift (Inr v)) f = f v"
  "io_bind (io_lift (Inl err)) f = ([], Rejects err)"
  by (simp_all add: io_lift_def)

lemma io_bind_emit [simp]: "io_bind (io_emit ev) f = (ev # fst (f ()), snd (f ()))"
  by (simp add: io_emit_def)

lemma io_bind_await [simp]:
  "io_bind (io_await p) f =
     (case p of Resolves v \<Rightarrow> f v | Rejects err \<Rightarrow> ([], Rejects err) | Pending \<Rightarrow> ([], Pending))"
  by (simp add: io_await_def split: outcome.splits)

lemma mailOptions_sel [simp]:
  "html (mailOptions e u t h) = h" "mail_to (mailOptions e u t h) = destination e"
  by (simp_all add: mailOptions_def)

lemma credentials_string:
  assumes "ToBoolean (user e)"
  obtains u where "user e = JString u" and "u \<noteq> []"
  using assms by (cases "SMTP_USER e") (auto simp: user_def env_value_def)

text \<open>
  The subject line reads \<^verbatim>\<open>orderMeta?.order_number\<close> again; once the document has been
  rendered, that read and its conversion to a string cannot throw.
\<close>

lemma Get_js_or_optional:
  "Get (js_or om (JObject [])) k = Inr v \<Longrightarrow> optional_get om k = Inr v"
  by (cases om) (auto simp: js_or_def optional_get_def split: if_splits)

lemma escapeHtml_js_or_ToString:
  "escapeHtml (js_or v (JString [])) = Inr s \<Longrightarrow> \<exists>t. ToString (js_or v (JString [])) = Inr t"
  by (cases v) (auto simp: escapeHtml_def js_or_def bindE_Inr_iff split: if_splits)

lemma buildHtml_subject:
  assumes "buildHtml (js_or om (JObject [])) its = Inr h"
  shows "\<exists>num t. optional_get om ''order_number'' = Inr num
                 \<and> ToString (js_or num (JString [])) = Inr t"
proof -
  from assms obtain v1 s where "Get (js_or om (JObject [])) ''order_number'' = Inr v1"
    and "escapeHtml (js_or v1 (JString [])) = Inr s"
    unfolding buildHtml_def bindE_Inr_iff by blast
  then show ?thesis
    using Get_js_or_optional escapeHtml_js_or_ToString by blast
qed

lemma read_body_cases:
  "read_body rt req =
     (if ToBoolean (body req) \<and> Object_keys (body req) \<noteq> [] then ([], Resolves (body req))
      else case ending (stream req) of
             EndEvent \<Rightarrow> (case JSON_parse rt (concat (chunks (stream req))) of
                            Inl err \<Rightarrow> ([ReadStream], Rejects err)
                          | Inr v \<Rightarrow> ([ReadStream], Resolves v))
           | ErrorEvent err \<Rightarrow> ([ReadStream], Rejects err)
           | NoEvent \<Rightarrow> ([ReadStream], Pending))"
  by (auto simp: read_body_def io_return_def getRawBody_def io_await_def io_lift_def
           split: stream_end.splits sum.splits)

lemma read_body_events: "set (fst (read_body rt req)) \<subseteq> {ReadStream}"
  by (auto simp: read_body_cases split: stream_end.splits sum.splits)

lemma JSON_parse_verify_update [simp]: "JSON_parse (rt\<lparr>verify := f\<rparr>) = JSON_parse rt"
  by (simp add: JSON_parse_def fun_eq_iff)

lemma read_body_verify_update [simp]:
  "read_body (rt\<lparr>verify := f\<rparr>) req = read_body rt req"
  by (simp add: read_body_def)

lemma verify_step_cases:
  "verify_step e rt =
     (case verify rt (transporter e) of
        Resolves u \<Rightarrow> ([TransportVerify (transporter e)], Resolves ())
      | Rejects err \<Rightarrow> ([TransportVerify (transporter e),
                          ConsoleWarn ''SMTP verify warning:'' (message err)], Resolves ())
      | Pending \<Rightarrow> ([TransportVerify (transporter e)], Pending))"
  by (simp add: verify_step_def io_catch_def io_await_def io_emit_def split: outcome.splits)

text \<open>
  The run of a POST request with credentials whose body is read, destructured and rendered
  without an exception, and whose connection check settles.
\<close>

lemma handler_valid:
  assumes post: "req_method req = ''POST''"
    and cred: "ToBoolean (user e)" "ToBoolean (pass e)"
    and rb: "read_body rt req = (evs0, Resolves parsed)"
    and om: "destructure parsed ''orderMeta'' = Inr om"
    and its: "destructure parsed ''items'' = Inr its"
    and h: "buildHtml (js_or om (JObject [])) (js_or its (JArray [])) = Inr h"
    and v: "verify rt (transporter e) \<noteq> Pending"
  shows "\<exists>u num s. user e = JString u \<and> optional_get om ''order_number'' = Inr num \<and>
           ToString (js_or num (JString [])) = Inr s \<and>
           handler e rt req =
             (evs0 @ [CreateTransport (transporter e), TransportVerify (transporter e)]
                @ (case verify rt (transporter e) of
                     Rejects verr \<Rightarrow> [ConsoleWarn ''SMTP verify warning:'' (message verr)]
                   | _ \<Rightarrow> [])
                @ [TransportSendMail (transporter e) (mailOptions e u s h)]
                @ (case sendMail rt (transporter e) (mailOptions e u s h) of
                     Rejects err \<Rightarrow> [ConsoleError ''api/send-email error'' (Some err)]
                   | _ \<Rightarrow> []),
              (case sendMail rt (transporter e) (mailOptions e u s h) of
                 Resolves info \<Rightarrow> Some (success_response info)
               | Rejects err \<Rightarrow> Some (error_response err)
               | Pending \<Rightarrow> None))"
proof -
  from buildHtml_subject [OF h] obtain num s
    where num: "optional_get om ''order_number'' = Inr num"
      and s: "ToString (js_or num (JString [])) = Inr s" by blast
  from cred(1) obtain u where u: "user e = JString u" and "u \<noteq> []"
    by (rule credentials_string)
  show ?thesis
    apply (rule exI [of _ u], rule exI [of _ num], rule exI [of _ s])
    using post cred v
    by (cases "verify rt (transporter e)";
        cases "sendMail rt (transporter e) (mailOptions e u s h)")
       (simp_all add: handler_def try_block_def rb om its h num s u verify_step_cases
          io_return_def)
qed

lemma handler_render_failure:
  assumes post: "req_method req = ''POST''"
    and cred: "ToBoolean (user e)" "ToBoolean (pass e)"
    and rb: "read_body rt req = (evs0, Resolves parsed)"
    and om: "destructure parsed ''orderMeta'' = Inr om"
    and its: "destructure parsed ''items'' = Inr its"
    and h: "buildHtml (js_or om (JObject [])) (js_or its (JArray [])) = Inl err"
    and v: "verify rt (transporter e) \<noteq> Pending"
  shows "handler e rt req =
           (evs0 @ [CreateTransport (transporter e), TransportVerify (transporter e)]
              @ (case verify rt (transporter e) of
                   Rejects verr \<Rightarrow> [ConsoleWarn ''SMTP verify warning:'' (message verr)]
                 | _ \<Rightarrow> [])
              @ [ConsoleError ''api/send-email error'' (Some err)],
            Some (error_response err))"
  using post cred v
  by (cases "verify rt (transporter e)")
     (simp_all add: handler_def try_block_def rb om its h verify_step_cases)

lemma handler_early_failure:
  assumes post: "req_method req = ''POST''"
    and cred: "ToBoolean (user e)" "ToBoolean (pass e)"
    and tb: "try_block e rt req = (evs, Rejects err)"
  shows "handler e rt req =
           (evs @ [ConsoleError ''api/send-email error'' (Some err)], Some (error_response err))"
  using post cred by (simp add: handler_def tb)

text \<open>Every run of a POST request with credentials has one of five shapes.\<close>

lemma handler_cases:
  assumes post: "req_method req = ''POST''"
    and cred: "ToBoolean (user e)" "ToBoolean (pass e)"
  shows "(\<exists>evs0 err. set evs0 \<subseteq> {ReadStream} \<and>
            handler e rt req =
              (evs0 @ [ConsoleError ''api/send-email error'' (Some err)],
               Some (error_response err)))
       \<or> (\<exists>evs0. set evs0 \<subseteq> {ReadStream} \<and> handler e rt req = (evs0, None))
       \<or> (\<exists>evs0. set evs0 \<subseteq> {ReadStream} \<and> verify rt (transporter e) = Pending \<and>
            handler e rt req =
              (evs0 @ [CreateTransport (transporter e), TransportVerify (transporter e)], None))
       \<or> (\<exists>evs0 w err. set evs0 \<subseteq> {ReadStream} \<and>
            set w \<subseteq> range (ConsoleWarn ''SMTP verify warning:'') \<and>
            handler e rt req =
              (evs0 @ [CreateTransport (transporter e), TransportVerify (transporter e)] @ w
                 @ [ConsoleError ''api/send-email error'' (Some err)],
               Some (error_response err)))
       \<or> (\<exists>evs0 w m. set evs0 \<subseteq> {ReadStream} \<and>
            set w \<subseteq> range (ConsoleWarn ''SMTP verify warning:'') \<and>
            mail_to m = destination e \<and>
            handler e rt req =
              (evs0 @ [CreateTransport (transporter e), TransportVerify (transporter e)] @ w
                 @ [TransportSendMail (transporter e) m]
                 @ (case sendMail rt (transporter e) m of
                      Rejects err \<Rightarrow> [ConsoleError ''api/send-email error'' (Some err)]
                    | _ \<Rightarrow> []),
               (case sendMail rt (transporter e) m of
                  Resolves info \<Rightarrow> Some (success_response info)
                | Rejects err \<Rightarrow> Some (error_response err)
                | Pending \<Rightarrow> None)))"
  (is "?A \<or> ?B \<or> ?C \<or> ?D \<or> ?E")
proof -
  have iA: "?A \<Longrightarrow> ?thesis" by (rule disjI1)
  have iB: "?B \<Longrightarrow> ?thesis" by (rule disjI2, rule disjI1)
  have iC: "?C \<Longrightarrow> ?thesis" by (rule disjI2, rule disjI2, rule disjI1)
  have iD: "?D \<Longrightarrow> ?thesis" by (rule disjI2, rule disjI2, rule disjI2, rule disjI1)
  have iE: "?E \<Longrightarrow> ?thesis" by (rule disjI2, rule disjI2, rule disjI2, rule disjI2)
  obtain evs0 r where rb: "read_body rt req = (evs0, r)"
    by (cases "read_body rt req")
  with read_body_events [of rt req] have evs0: "set evs0 \<subseteq> {ReadStream}"
    by simp
  let ?w = "case verify rt (transporter e) of
              Rejects verr \<Rightarrow> [ConsoleWarn ''SMTP verify warning:'' (message verr)] | _ \<Rightarrow> []"
  have w: "set ?w \<subseteq> range (ConsoleWarn ''SMTP verify warning:'')"
    by (cases "verify rt (transporter e)") simp_all
  have early: ?A if "try_block e rt req = (evs0, Rejects err)" for err
    apply (rule exI [of _ evs0], rule exI [of _ err])
    using handler_early_failure [OF post cred that] evs0 by simp
  show ?thesis
  proof (cases r)
    case (Resolves parsed)
    with rb have rb': "read_body rt req = (evs0, Resolves parsed)" by simp
    show ?thesis
    proof (cases "destructure parsed ''orderMeta''")
      case om: (Inr om)
      show ?thesis
      proof (cases "destructure parsed ''items''")
        case its: (Inr its)
        show ?thesis
        proof (cases "verify rt (transporter e) = Pending")
          case True
          have ?C
            apply (rule exI [of _ evs0])
            using True post cred evs0
            by (simp add: handler_def try_block_def rb' om its verify_step_cases)
          then show ?thesis by (rule iC)
        next
          case False
          show ?thesis
          proof (cases "buildHtml (js_or om (JObject [])) (js_or its (JArray []))")
            case (Inl err)
            have ?D
              apply (rule exI [of _ evs0], rule exI [of _ ?w], rule exI [of _ err])
              using handler_render_failure [OF post cred rb' om its Inl False] evs0 w
              by simp
            then show ?thesis by (rule iD)
          next
            case (Inr h)
            from handler_valid [OF post cred rb' om its Inr False] obtain u s
              where run: "handler e rt req =
                (evs0 @ [CreateTransport (transporter e), TransportVerify (transporter e)] @ ?w
                   @ [TransportSendMail (transporter e) (mailOptions e u s h)]
                   @ (case sendMail rt (transporter e) (mailOptions e u s h) of
                        Rejects err \<Rightarrow> [ConsoleError ''api/send-email error'' (Some err)]
                      | _ \<Rightarrow> []),
                 (case sendMail rt (transporter e) (mailOptions e u s h) of
                    Resolves info \<Rightarrow> Some (success_response info)
                  | Rejects err \<Rightarrow> Some (error_response err)
                  | Pending \<Rightarrow> None))"
              by (elim exE conjE)
            have ?E
              apply (rule exI [of _ evs0], rule exI [of _ ?w])
              apply (rule exI [of _ "mailOptions e u s h"])
              using run evs0 w by simp
            then show ?thesis by (rule iE)
          qed
        qed
      next
        case (Inl err)
        with om have "try_block e rt req = (evs0, Rejects err)"
          by (simp add: try_block_def rb')
        from early [OF this] show ?thesis by (rule iA)
      qed
    next
      case (Inl err)
      then have "try_block e rt req = (evs0, Rejects err)"
        by (simp add: try_block_def rb')
      from early [OF this] show ?thesis by (rule iA)
    qed
  next
    case (Rejects err)
    then have "try_block e rt req = (evs0, Rejects err)"
      by (simp add: try_block_def rb)
    from early [OF this] show ?thesis by (rule iA)
  next
    case Pending
    have ?B
      apply (rule exI [of _ evs0])
      using Pending post cred evs0 by (simp add: handler_def try_block_def rb)
    then show ?thesis by (rule iB)
  qed
qed

lemma send_event:
  assumes post: "req_method req = ''POST''"
    and cred: "ToBoolean (user e)" "ToBoolean (pass e)"
    and ev: "TransportSendMail t m \<in> set (fst (handler e rt req))"
  shows "t = transporter e \<and> mail_to m = destination e \<and>
         snd (handler e rt req) =
           (case sendMail rt t m of
              Resolves info \<Rightarrow> Some (success_response info)
            | Rejects err \<Rightarrow> Some (error_response err)
            | Pending \<Rightarrow> None)"
  using handler_cases [OF post cred, of rt] ev
  by (elim disjE exE conjE) (auto split: outcome.splits)

lemma transport_events:
  assumes post: "req_method req = ''POST''"
    and cred: "ToBoolean (user e)" "ToBoolean (pass e)"
  shows "(CreateTransport t \<in> set (fst (handler e rt req)) \<longrightarrow> t = transporter e)
       \<and> (TransportVerify t \<in> set (fst (handler e rt req)) \<longrightarrow> t = transporter e)"
  using handler_cases [OF post cred, of rt]
  by (elim disjE exE conjE) (auto split: outcome.splits)

section \<open>Method and credential checks\<close>

text \<open>
  C3. A request whose method is not POST is answered with status 405, the header
  \<^verbatim>\<open>Allow: POST\<close> and the body \<^verbatim>\<open>{error: "Method not allowed"}\<close>, and nothing else
  happens: the list of actions is empty (no stream read, no log line, no transport, no
  verification, no send), whatever the body, the configuration and the runtime are.
\<close>

theorem method_not_allowed:
  "req_method req \<noteq> ''POST'' \<Longrightarrow>
     handler e rt req =
       ([], Some \<lparr>status = 405, headers = [(''Allow'', ''POST'')],
                  json = JObject [(''error'', JString ''Method not allowed'')]\<rparr>)"
  by (simp add: handler_def)

theorem method_not_allowed_witness:
  "req_method (example_request ''GET'' JUndefined) \<noteq> ''POST'' \<and>
   handler example_env (example_runtime Pending Pending) (example_request ''GET'' JUndefined) =
     ([], Some \<lparr>status = 405, headers = [(''Allow'', ''POST'')],
                json = JObject [(''error'', JString ''Method not allowed'')]\<rparr>)"
  using method_not_allowed
          [of "example_request ''GET'' JUndefined" example_env "example_runtime Pending Pending"]
  by (simp add: example_request_def)

text \<open>
  C4. A POST request, when the account or the secret is not configured, is answered with
  status 500 and the body \<^verbatim>\<open>{error: "SMTP credentials not configured"}\<close>, whatever the
  request holds; the only action is the log line, so no transport is created, nothing is
  verified and nothing is sent.
\<close>

theorem credentials_not_configured:
  "req_method req = ''POST'' \<Longrightarrow> SMTP_USER e = None \<or> SMTP_PASS e = None \<Longrightarrow>
     handler e rt req =
       ([ConsoleError ''SMTP credentials not configured (SMTP_USER/SMTP_PASS)'' None],
        Some \<lparr>status = 500, headers = [],
              json = JObject [(''error'', JString ''SMTP credentials not configured'')]\<rparr>)"
  by (auto simp add: handler_def user_def pass_def env_value_def)

theorem credentials_not_configured_witness:
  "req_method (example_request ''POST'' (JObject [(''items'', JArray [])])) = ''POST'' \<and>
   (SMTP_USER (example_env\<lparr>SMTP_PASS := None\<rparr>) = None
      \<or> SMTP_PASS (example_env\<lparr>SMTP_PASS := None\<rparr>) = None) \<and>
   handler (example_env\<lparr>SMTP_PASS := None\<rparr>)
       (example_runtime (Resolves ()) (Resolves \<lparr>messageId = ''<1@example.com>'', accepted = []\<rparr>))
       (example_request ''POST'' (JObject [(''items'', JArray [])])) =
     ([ConsoleError ''SMTP credentials not configured (SMTP_USER/SMTP_PASS)'' None],
      Some \<lparr>status = 500, headers = [],
            json = JObject [(''error'', JString ''SMTP credentials not configured'')]\<rparr>)"
  using credentials_not_configured
          [of "example_request ''POST'' (JObject [(''items'', JArray [])])"
              "example_env\<lparr>SMTP_PASS := None\<rparr>"
              "example_runtime (Resolves ()) (Resolves \<lparr>messageId = ''<1@example.com>'', accepted = []\<rparr>)"]
  by (simp add: example_request_def)

section \<open>Dispatch\<close>

lemma example_request_sel [simp]:
  "req_method (example_request m b) = m" "body (example_request m b) = b"
  "chunks (stream (example_request m b)) = []" "ending (stream (example_request m b)) = EndEvent"
  by (simp_all add: example_request_def)

lemma example_runtime_sel [simp]:
  "verify (example_runtime v s) = (\<lambda>t. v)" "sendMail (example_runtime v s) = (\<lambda>t m. s)"
  by (simp_all add: example_runtime_def)

lemma example_env_credentials [simp]:
  "ToBoolean (user example_env)" "ToBoolean (pass example_env)"
  "user example_env = JString ''shop@example.com''"
  by (simp_all add: example_env_def user_def pass_def env_value_def)

lemma example_body_read:
  "read_body rt (example_request ''POST'' example_body) = ([], Resolves example_body)"
  by (simp add: read_body_cases example_body_def)

lemma example_body_fields:
  "destructure example_body ''orderMeta'' = Inr (JObject [(''order_number'', JString ''42'')])"
  "destructure example_body ''items'' = Inr (JArray [])"
  by (simp_all add: example_body_def destructure_def)

lemma example_body_html:
  "buildHtml (JObject [(''order_number'', JString ''42'')]) (JArray [])
     = Inr (document_html ''42'' [] [] [] [] ''0'' [])"
  by (simp add: buildHtml_def rows_def total'_def array_method_def escapeHtml_def
        replace_special_def escape_char_def)

text \<open>
  C5. Take a POST request with credentials whose body is read, destructured and rendered
  without an exception, and let the connection check fail. Then the failure is logged as a
  warning, the e-mail with the rendered document is handed to \<^verbatim>\<open>sendMail\<close> all the same,
  and the response is decided by the outcome of the send alone: the success response
  (status 200) when it resolves, the error response when it rejects. It is the response
  the same request gets when the check succeeds.
\<close>

theorem verify_failure_is_not_fatal:
  assumes "req_method req = ''POST''" and "ToBoolean (user e)" and "ToBoolean (pass e)"
    and "read_body rt req = (evs0, Resolves parsed)"
    and "destructure parsed ''orderMeta'' = Inr om" and "destructure parsed ''items'' = Inr its"
    and "buildHtml (js_or om (JObject [])) (js_or its (JArray [])) = Inr h"
    and "verify rt (transporter e) = Rejects verr"
  shows "\<exists>m. html m = h \<and>
           fst (handler e rt req) =
             evs0 @ [CreateTransport (transporter e), TransportVerify (transporter e),
                     ConsoleWarn ''SMTP verify warning:'' (message verr),
                     TransportSendMail (transporter e) m]
               @ (case sendMail rt (transporter e) m of
                    Rejects err \<Rightarrow> [ConsoleError ''api/send-email error'' (Some err)]
                  | _ \<Rightarrow> []) \<and>
           snd (handler e rt req) =
             (case sendMail rt (transporter e) m of
                Resolves info \<Rightarrow> Some (success_response info)
              | Rejects err \<Rightarrow> Some (error_response err)
              | Pending \<Rightarrow> None) \<and>
           snd (handler e rt req) = snd (handler e (rt\<lparr>verify := \<lambda>t. Resolves ()\<rparr>) req) \<and>
           (\<forall>info. status (success_response info) = 200)"
proof -
  let ?rt = "rt\<lparr>verify := \<lambda>t. Resolves ()\<rparr>"
  have v: "verify rt (transporter e) \<noteq> Pending" and v': "verify ?rt (transporter e) \<noteq> Pending"
    using assms(8) by simp_all
  have rb': "read_body ?rt req = (evs0, Resolves parsed)"
    using assms(4) by simp
  from handler_valid [OF assms(1-7) v] obtain u num s
    where u: "user e = JString u" and num: "optional_get om ''order_number'' = Inr num"
      and s: "ToString (js_or num (JString [])) = Inr s"
      and run: "handler e rt req =
        (evs0 @ [CreateTransport (transporter e), TransportVerify (transporter e)]
           @ (case verify rt (transporter e) of
                Rejects verr \<Rightarrow> [ConsoleWarn ''SMTP verify warning:'' (message verr)]
              | _ \<Rightarrow> [])
           @ [TransportSendMail (transporter e) (mailOptions e u s h)]
           @ (case sendMail rt (transporter e) (mailOptions e u s h) of
                Rejects err \<Rightarrow> [ConsoleError ''api/send-email error'' (Some err)]
              | _ \<Rightarrow> []),
         (case sendMail rt (transporter e) (mailOptions e u s h) of
            Resolves info \<Rightarrow> Some (success_response info)
          | Rejects err \<Rightarrow> Some (error_response err)
          | Pending \<Rightarrow> None))"
    by (elim exE conjE)
  from handler_valid [OF assms(1-3) rb' assms(5-7) v'] obtain u' num' s'
    where u': "user e = JString u'" and num': "optional_get om ''order_number'' = Inr num'"
      and s': "ToString (js_or num' (JString [])) = Inr s'"
      and run': "snd (handler e ?rt req) =
         (case sendMail ?rt (transporter e) (mailOptions e u' s' h) of
            Resolves info \<Rightarrow> Some (success_response info)
          | Rejects err \<Rightarrow> Some (error_response err)
          | Pending \<Rightarrow> None)"
    by (elim exE conjE) simp
  from u u' num num' s s' have same: "u' = u" "s' = s"
    by simp_all
  show ?thesis
    apply (rule exI [of _ "mailOptions e u s h"])
    using run run' same assms(8) by (simp add: success_response_def)
qed

theorem verify_failure_is_not_fatal_witness:
  "ConsoleWarn ''SMTP verify warning:'' ''connect ETIMEDOUT''
     \<in> set (fst (handler example_env
                   (example_runtime (Rejects (Error ''connect ETIMEDOUT'')) (Resolves example_info))
                   (example_request ''POST'' example_body))) \<and>
   snd (handler example_env
          (example_runtime (Rejects (Error ''connect ETIMEDOUT'')) (Resolves example_info))
          (example_request ''POST'' example_body))
     = Some \<lparr>status = 200, headers = [],
             json = JObject [(''ok'', JBool True), (''messageId'', JString ''<1@example.com>''),
                             (''accepted'', JArray [JString ''shop@example.com''])]\<rparr>"
  using verify_failure_is_not_fatal
          [of "example_request ''POST'' example_body" example_env
              "example_runtime (Rejects (Error ''connect ETIMEDOUT'')) (Resolves example_info)"
              "[]" example_body "JObject [(''order_number'', JString ''42'')]" "JArray []"
              "document_html ''42'' [] [] [] [] ''0'' []" "Error ''connect ETIMEDOUT''"]
  by (auto simp: example_body_read example_body_fields example_body_html
        success_response_def example_info_def)

text \<open>
  C6. For a POST request with credentials: when the send that the handler attempted
  resolves, the response is 200 with \<^verbatim>\<open>ok: true\<close>, the message id and the accepted
  addresses the client reported; when it rejects, the response is the error response.
  When parsing the raw body throws, or rendering throws (the connection check having
  settled), the exception is caught and answered with the error response too. The error
  response is status 500 with the body \<^verbatim>\<open>{error: msg}\<close>, where \<open>msg\<close> is the message of the
  exception, or \<^verbatim>\<open>send failed\<close> when that is empty; so it is never empty.
\<close>

theorem send_outcome_and_caught_exceptions:
  assumes "req_method req = ''POST''" and "ToBoolean (user e)" and "ToBoolean (pass e)"
  shows "(TransportSendMail (transporter e) m \<in> set (fst (handler e rt req)) \<and>
            sendMail rt (transporter e) m = Resolves info \<longrightarrow>
            snd (handler e rt req) =
              Some \<lparr>status = 200, headers = [],
                    json = JObject [(''ok'', JBool True),
                                    (''messageId'', JString (messageId info)),
                                    (''accepted'', JArray (map JString (accepted info)))]\<rparr>)
       \<and> (TransportSendMail (transporter e) m \<in> set (fst (handler e rt req)) \<and>
            sendMail rt (transporter e) m = Rejects err \<longrightarrow>
            snd (handler e rt req) = Some (error_response err))
       \<and> (\<not> (ToBoolean (body req) \<and> Object_keys (body req) \<noteq> []) \<and>
            ending (stream req) = EndEvent \<and>
            JSON_parse rt (concat (chunks (stream req))) = Inl err \<longrightarrow>
            handler e rt req =
              ([ReadStream, ConsoleError ''api/send-email error'' (Some err)],
               Some (error_response err)))
       \<and> (read_body rt req = (evs0, Resolves parsed) \<and>
            destructure parsed ''orderMeta'' = Inr om \<and> destructure parsed ''items'' = Inr its \<and>
            verify rt (transporter e) \<noteq> Pending \<and>
            buildHtml (js_or om (JObject [])) (js_or its (JArray [])) = Inl err \<longrightarrow>
            snd (handler e rt req) = Some (error_response err))
       \<and> error_response err =
            \<lparr>status = 500, headers = [],
             json = JObject [(''error'',
                      JString (if message err = [] then ''send failed'' else message err))]\<rparr>"
proof (intro conjI impI)
  assume a: "TransportSendMail (transporter e) m \<in> set (fst (handler e rt req)) \<and>
             sendMail rt (transporter e) m = Resolves info"
  with send_event [OF assms, of "transporter e" m rt]
  show "snd (handler e rt req) =
          Some \<lparr>status = 200, headers = [],
                json = JObject [(''ok'', JBool True),
                                (''messageId'', JString (messageId info)),
                                (''accepted'', JArray (map JString (accepted info)))]\<rparr>"
    by (simp add: success_response_def)
next
  assume a: "TransportSendMail (transporter e) m \<in> set (fst (handler e rt req)) \<and>
             sendMail rt (transporter e) m = Rejects err"
  with send_event [OF assms, of "transporter e" m rt]
  show "snd (handler e rt req) = Some (error_response err)"
    by simp
next
  assume a: "\<not> (ToBoolean (body req) \<and> Object_keys (body req) \<noteq> []) \<and>
             ending (stream req) = EndEvent \<and>
             JSON_parse rt (concat (chunks (stream req))) = Inl err"
  then have "read_body rt req = ([ReadStream], Rejects err)"
    by (simp add: read_body_cases)
  then have "try_block e rt req = ([ReadStream], Rejects err)"
    by (simp add: try_block_def)
  from handler_early_failure [OF assms this]
  show "handler e rt req =
          ([ReadStream, ConsoleError ''api/send-email error'' (Some err)],
           Some (error_response err))"
    by simp
next
  assume a: "read_body rt req = (evs0, Resolves parsed) \<and>
             destructure parsed ''orderMeta'' = Inr om \<and> destructure parsed ''items'' = Inr its \<and>
             verify rt (transporter e) \<noteq> Pending \<and>
             buildHtml (js_or om (JObject [])) (js_or its (JArray [])) = Inl err"
  then have b: "read_body rt req = (evs0, Resolves parsed)"
      "destructure parsed ''orderMeta'' = Inr om" "destructure parsed ''items'' = Inr its"
      "buildHtml (js_or om (JObject [])) (js_or its (JArray [])) = Inl err"
      "verify rt (transporter e) \<noteq> Pending"
    by simp_all
  from handler_render_failure [OF assms b]
  show "snd (handler e rt req) = Some (error_response err)"
    by simp
next
  show "error_response err =
          \<lparr>status = 500, headers = [],
           json = JObject [(''error'',
                    JString (if message err = [] then ''send failed'' else message err))]\<rparr>"
    by (simp add: error_response_def js_or_def)
qed

lemma example_mail_sent:
  "v \<noteq> Pending \<Longrightarrow>
   TransportSendMail (transporter example_env)
      (mailOptions example_env ''shop@example.com'' ''42''
         (document_html ''42'' [] [] [] [] ''0'' []))
     \<in> set (fst (handler example_env (example_runtime v s)
                    (example_request ''POST'' example_body)))"
  by (cases v; cases s)
     (simp_all add: handler_def try_block_def example_body_read example_body_fields
        example_body_html verify_step_cases optional_get_def io_return_def)

lemma null_item_html:
  "buildHtml (JObject []) (JArray [JNull])
     = Inl (TypeError (''Cannot read properties of null (reading '' @ [CHR 0x27] @ ''title''
                         @ [CHR 0x27] @ '')''))"
  by (simp add: buildHtml_def rows_def array_method_def row_def)

theorem send_outcome_and_caught_exceptions_witness:
  "snd (handler example_env (example_runtime (Resolves ()) (Resolves example_info))
          (example_request ''POST'' example_body))
     = Some \<lparr>status = 200, headers = [],
             json = JObject [(''ok'', JBool True), (''messageId'', JString ''<1@example.com>''),
                             (''accepted'', JArray [JString ''shop@example.com''])]\<rparr>
   \<and> snd (handler example_env (example_runtime (Resolves ()) (Rejects (Error ''Invalid login'')))
          (example_request ''POST'' example_body))
     = Some \<lparr>status = 500, headers = [],
             json = JObject [(''error'', JString ''Invalid login'')]\<rparr>
   \<and> handler example_env (example_runtime (Resolves ()) (Resolves example_info))
          (example_request ''POST'' JUndefined)
     = ([ReadStream,
         ConsoleError ''api/send-email error''
           (Some (SyntaxError ''Unexpected end of JSON input''))],
        Some \<lparr>status = 500, headers = [],
              json = JObject [(''error'', JString ''Unexpected end of JSON input'')]\<rparr>)
   \<and> snd (handler example_env (example_runtime (Resolves ()) (Resolves example_info))
          (example_request ''POST'' (JObject [(''items'', JArray [JNull])])))
     = Some \<lparr>status = 500, headers = [],
             json = JObject [(''error'',
                      JString (''Cannot read properties of null (reading '' @ [CHR 0x27]
                                 @ ''title'' @ [CHR 0x27] @ '')''))]\<rparr>"
proof (intro conjI)
  let ?m = "mailOptions example_env ''shop@example.com'' ''42''
              (document_html ''42'' [] [] [] [] ''0'' [])"
  show "snd (handler example_env (example_runtime (Resolves ()) (Resolves example_info))
          (example_request ''POST'' example_body))
     = Some \<lparr>status = 200, headers = [],
             json = JObject [(''ok'', JBool True), (''messageId'', JString ''<1@example.com>''),
                             (''accepted'', JArray [JString ''shop@example.com''])]\<rparr>"
    using send_outcome_and_caught_exceptions
            [of "example_request ''POST'' example_body" example_env ?m
                "example_runtime (Resolves ()) (Resolves example_info)" example_info]
          example_mail_sent [of "Resolves ()" "Resolves example_info"]
    by (simp add: example_info_def)
  show "snd (handler example_env (example_runtime (Resolves ()) (Rejects (Error ''Invalid login'')))
          (example_request ''POST'' example_body))
     = Some \<lparr>status = 500, headers = [],
             json = JObject [(''error'', JString ''Invalid login'')]\<rparr>"
    using send_outcome_and_caught_exceptions
            [of "example_request ''POST'' example_body" example_env ?m
                "example_runtime (Resolves ()) (Rejects (Error ''Invalid login''))" _
                "Error ''Invalid login''"]
          example_mail_sent [of "Resolves ()" "Rejects (Error ''Invalid login'')"]
    by simp
  show "handler example_env (example_runtime (Resolves ()) (Resolves example_info))
          (example_request ''POST'' JUndefined)
     = ([ReadStream,
         ConsoleError ''api/send-email error''
           (Some (SyntaxError ''Unexpected end of JSON input''))],
        Some \<lparr>status = 500, headers = [],
              json = JObject [(''error'', JString ''Unexpected end of JSON input'')]\<rparr>)"
    using send_outcome_and_caught_exceptions
            [of "example_request ''POST'' JUndefined" example_env _
                "example_runtime (Resolves ()) (Resolves example_info)" _
                "SyntaxError ''Unexpected end of JSON input''"]
    by (simp add: JSON_parse_def)
  show "snd (handler example_env (example_runtime (Resolves ()) (Resolves example_info))
          (example_request ''POST'' (JObject [(''items'', JArray [JNull])])))
     = Some \<lparr>status = 500, headers = [],
             json = JObject [(''error'',
                      JString (''Cannot read properties of null (reading '' @ [CHR 0x27]
                                 @ ''title'' @ [CHR 0x27] @ '')''))]\<rparr>"
    using send_outcome_and_caught_exceptions
            [of "example_request ''POST'' (JObject [(''items'', JArray [JNull])])" example_env _
                "example_runtime (Resolves ()) (Resolves example_info)" _
                "TypeError (''Cannot read properties of null (reading '' @ [CHR 0x27]
                              @ ''title'' @ [CHR 0x27] @ '')'')"
                "[]" "JObject [(''items'', JArray [JNull])]" JUndefined "JArray [JNull]"]
          null_item_html
    by (simp add: read_body_cases destructure_def)
qed

text \<open>
  C8. The host is the value of \<^verbatim>\<open>SMTP_HOST\<close>, or \<^verbatim>\<open>smtp.gmail.com\<close> when the variable is
  unset or empty. The port is the number read from \<^verbatim>\<open>SMTP_PORT\<close>, or 587 when the
  variable is unset or empty. The destination is the value of \<^verbatim>\<open>EMAIL_TO\<close>, or the SMTP
  account when the variable is unset or empty. Every transport the handler creates or
  verifies, and the one every e-mail is sent through, has this host and this port, has
  \<^verbatim>\<open>secure\<close> (implicit TLS) exactly when the port variable is set and reads as the number
  465, and not otherwise (STARTTLS), and authenticates with the values of \<^verbatim>\<open>SMTP_USER\<close>
  and \<^verbatim>\<open>SMTP_PASS\<close>; every e-mail goes to the destination.
\<close>

theorem dispatch_configuration:
  "host e = (case SMTP_HOST e of
               None \<Rightarrow> JString ''smtp.gmail.com''
             | Some s \<Rightarrow> if s = [] then JString ''smtp.gmail.com'' else JString s)
   \<and> port e = (case SMTP_PORT e of
                 None \<Rightarrow> JNumber (Fin 587)
               | Some s \<Rightarrow> if s = [] then JNumber (Fin 587) else JNumber (StringToNumber s))
   \<and> destination e = (case EMAIL_TO e of
                        None \<Rightarrow> env_value (SMTP_USER e)
                      | Some s \<Rightarrow> if s = [] then env_value (SMTP_USER e) else JString s)
   \<and> (SMTP_HOST e = None \<longrightarrow> host e = JString ''smtp.gmail.com'')
   \<and> (SMTP_PORT e = None \<longrightarrow> port e = JNumber (Fin 587))
   \<and> (EMAIL_TO e = None \<longrightarrow> destination e = user e)
   \<and> opt_host (transporter e) = host e
   \<and> opt_port (transporter e) = port e
   \<and> (secure (transporter e) \<longleftrightarrow> port e = JNumber (Fin 465))
   \<and> (secure (transporter e) \<longleftrightarrow>
         (\<exists>s. SMTP_PORT e = Some s \<and> s \<noteq> [] \<and> StringToNumber s = Fin 465))
   \<and> auth_user (transporter e) = env_value (SMTP_USER e)
   \<and> auth_pass (transporter e) = env_value (SMTP_PASS e)
   \<and> (CreateTransport t \<in> set (fst (handler e rt req)) \<or>
        TransportVerify t \<in> set (fst (handler e rt req)) \<or>
        TransportSendMail t m \<in> set (fst (handler e rt req)) \<longrightarrow>
          opt_host t = (case SMTP_HOST e of
                          None \<Rightarrow> JString ''smtp.gmail.com''
                        | Some s \<Rightarrow> if s = [] then JString ''smtp.gmail.com'' else JString s) \<and>
          opt_port t = (case SMTP_PORT e of
                          None \<Rightarrow> JNumber (Fin 587)
                        | Some s \<Rightarrow> if s = [] then JNumber (Fin 587)
                                    else JNumber (StringToNumber s)) \<and>
          (secure t \<longleftrightarrow>
             (\<exists>s. SMTP_PORT e = Some s \<and> s \<noteq> [] \<and> StringToNumber s = Fin 465)) \<and>
          auth_user t = env_value (SMTP_USER e) \<and>
          auth_pass t = env_value (SMTP_PASS e))
   \<and> (CreateTransport t \<in> set (fst (handler e rt req)) \<longrightarrow> t = transporter e)
   \<and> (TransportVerify t \<in> set (fst (handler e rt req)) \<longrightarrow> t = transporter e)
   \<and> (TransportSendMail t m \<in> set (fst (handler e rt req)) \<longrightarrow>
        t = transporter e \<and> mail_to m = destination e \<and>
        mail_to m = (case EMAIL_TO e of
                       None \<Rightarrow> env_value (SMTP_USER e)
                     | Some s \<Rightarrow> if s = [] then env_value (SMTP_USER e) else JString s))"
proof -
  have events:
    "(CreateTransport t \<in> set (fst (handler e rt req)) \<longrightarrow> t = transporter e)
     \<and> (TransportVerify t \<in> set (fst (handler e rt req)) \<longrightarrow> t = transporter e)
     \<and> (TransportSendMail t m \<in> set (fst (handler e rt req)) \<longrightarrow>
          t = transporter e \<and> mail_to m = destination e)"
  proof (cases "req_method req = ''POST'' \<and> ToBoolean (user e) \<and> ToBoolean (pass e)")
    case True
    then show ?thesis
      using transport_events [of req e t rt] send_event [of req e t m rt] by blast
  next
    case False
    then show ?thesis
      by (auto simp: handler_def)
  qed
  have h: "host e = (case SMTP_HOST e of
               None \<Rightarrow> JString ''smtp.gmail.com''
             | Some s \<Rightarrow> if s = [] then JString ''smtp.gmail.com'' else JString s)"
    by (simp add: host_def env_value_def split: option.splits)
  have p: "port e = (case SMTP_PORT e of
                 None \<Rightarrow> JNumber (Fin 587)
               | Some s \<Rightarrow> if s = [] then JNumber (Fin 587) else JNumber (StringToNumber s))"
    by (simp add: port_def split: option.splits)
  have d: "destination e = (case EMAIL_TO e of
                        None \<Rightarrow> env_value (SMTP_USER e)
                      | Some s \<Rightarrow> if s = [] then env_value (SMTP_USER e) else JString s)"
    by (simp add: destination_def env_value_def split: option.splits)
  have s: "secure (transporter e) \<longleftrightarrow>
             (\<exists>s. SMTP_PORT e = Some s \<and> s \<noteq> [] \<and> StringToNumber s = Fin 465)"
    by (auto simp: transporter_def port_def split: option.splits)
  have tr: "opt_host (transporter e) = host e" "opt_port (transporter e) = port e"
    "secure (transporter e) \<longleftrightarrow> port e = JNumber (Fin 465)"
    "auth_user (transporter e) = env_value (SMTP_USER e)"
    "auth_pass (transporter e) = env_value (SMTP_PASS e)"
    by (simp_all add: transporter_def user_def pass_def)
  have none: "SMTP_HOST e = None \<longrightarrow> host e = JString ''smtp.gmail.com''"
    "SMTP_PORT e = None \<longrightarrow> port e = JNumber (Fin 587)"
    "EMAIL_TO e = None \<longrightarrow> destination e = user e"
    by (simp_all add: h p d user_def)
  have any: "CreateTransport t \<in> set (fst (handler e rt req)) \<or>
        TransportVerify t \<in> set (fst (handler e rt req)) \<or>
        TransportSendMail t m \<in> set (fst (handler e rt req)) \<longrightarrow>
          opt_host t = host e \<and> opt_port t = port e \<and>
          (secure t \<longleftrightarrow> secure (transporter e)) \<and>
          auth_user t = env_value (SMTP_USER e) \<and>
          auth_pass t = env_value (SMTP_PASS e)"
    using events tr by blast
  have mail: "TransportSendMail t m \<in> set (fst (handler e rt req)) \<longrightarrow>
        t = transporter e \<and> mail_to m = destination e \<and> mail_to m = destination e"
    using events by blast
  show ?thesis
    unfolding h [symmetric] p [symmetric] d [symmetric] s [symmetric]
    by (intro conjI refl none tr any mail events [THEN conjunct1]
          events [THEN conjunct2, THEN conjunct1])
qed

lemma port_465: "StringToNumber ''465'' = Fin 465"
  by code_simp

lemma port_2525: "StringToNumber ''2525'' = Fin 2525"
  by code_simp

theorem dispatch_configuration_witness:
  "host example_env = JString ''smtp.gmail.com''
   \<and> port example_env = JNumber (Fin 587)
   \<and> destination example_env = JString ''shop@example.com''
   \<and> \<not> secure (transporter example_env)
   \<and> port (example_env\<lparr>SMTP_PORT := Some ''465''\<rparr>) = JNumber (Fin 465)
   \<and> secure (transporter (example_env\<lparr>SMTP_PORT := Some ''465''\<rparr>))
   \<and> auth_user (transporter example_env) = JString ''shop@example.com''
   \<and> auth_pass (transporter example_env) = JString ''app-password''
   \<and> CreateTransport (transporter example_env)
         \<in> set (fst (handler example_env (example_runtime (Resolves ()) (Resolves example_info))
                        (example_request ''POST'' example_body)))
   \<and> host (example_env\<lparr>SMTP_HOST := Some ''mail.example.org''\<rparr>) = JString ''mail.example.org''
   \<and> destination (example_env\<lparr>EMAIL_TO := Some ''ops@example.org''\<rparr>)
        = JString ''ops@example.org''
   \<and> port (example_env\<lparr>SMTP_PORT := Some ''2525''\<rparr>) = JNumber (Fin 2525)
   \<and> \<not> secure (transporter (example_env\<lparr>SMTP_PORT := Some ''2525''\<rparr>))
   \<and> opt_host (transporter (example_env\<lparr>SMTP_HOST := Some ''mail.example.org''\<rparr>))
        = JString ''mail.example.org''"
proof -
  have run: "CreateTransport (transporter example_env)
         \<in> set (fst (handler example_env (example_runtime (Resolves ()) (Resolves example_info))
                        (example_request ''POST'' example_body)))"
    by (simp add: handler_def try_block_def example_body_read example_body_fields
          example_body_html verify_step_cases optional_get_def io_return_def)
  note a = dispatch_configuration [of example_env "transporter example_env"
            "example_runtime (Resolves ()) (Resolves example_info)"
            "example_request ''POST'' example_body"]
  note b = dispatch_configuration [of "example_env\<lparr>SMTP_PORT := Some ''465''\<rparr>"]
  note c = dispatch_configuration [of "example_env\<lparr>SMTP_HOST := Some ''mail.example.org''\<rparr>"]
  note d = dispatch_configuration [of "example_env\<lparr>EMAIL_TO := Some ''ops@example.org''\<rparr>"]
  note f = dispatch_configuration [of "example_env\<lparr>SMTP_PORT := Some ''2525''\<rparr>"]
  have "host example_env = JString ''smtp.gmail.com''"
    and "port example_env = JNumber (Fin 587)"
    and "destination example_env = JString ''shop@example.com''"
    and "\<not> secure (transporter example_env)"
    and "auth_user (transporter example_env) = JString ''shop@example.com''"
    and "auth_pass (transporter example_env) = JString ''app-password''"
    using a by (simp_all add: example_env_def env_value_def)
  moreover have "port (example_env\<lparr>SMTP_PORT := Some ''465''\<rparr>) = JNumber (Fin 465)"
    and "secure (transporter (example_env\<lparr>SMTP_PORT := Some ''465''\<rparr>))"
    using b by (simp_all add: port_465)
  moreover have "host (example_env\<lparr>SMTP_HOST := Some ''mail.example.org''\<rparr>)
                   = JString ''mail.example.org''"
    and "opt_host (transporter (example_env\<lparr>SMTP_HOST := Some ''mail.example.org''\<rparr>))
           = JString ''mail.example.org''"
    using c by simp_all
  moreover have "destination (example_env\<lparr>EMAIL_TO := Some ''ops@example.org''\<rparr>)
                   = JString ''ops@example.org''"
    using d by simp
  moreover have "port (example_env\<lparr>SMTP_PORT := Some ''2525''\<rparr>) = JNumber (Fin 2525)"
    and "\<not> secure (transporter (example_env\<lparr>SMTP_PORT := Some ''2525''\<rparr>))"
    using f by (simp_all add: port_2525)
  ultimately show ?thesis
    using run by (intro conjI)
qed

section \<open>Reading the body\<close>

lemma try_block_read:
  assumes "read_body rt req = (evs0, Resolves parsed)"
    and "read_body rt req' = ([], Resolves parsed)"
  shows "try_block e rt req = (evs0 @ fst (try_block e rt req'), snd (try_block e rt req'))"
  unfolding try_block_def assms
  by (simp only: io_bind_simps fst_conv snd_conv append_Nil)

lemma stream_request_sel [simp]:
  "req_method (stream_request cs en) = ''POST''" "body (stream_request cs en) = JObject []"
  "chunks (stream (stream_request cs en)) = cs" "ending (stream (stream_request cs en)) = en"
  by (simp_all add: stream_request_def)

lemma parsing_runtime_sel [simp]:
  "parse_text parsing_runtime text =
     (if text = example_text then Inr example_body else Inl (SyntaxError ''Unexpected token''))"
  "verify parsing_runtime = (\<lambda>t. Resolves ())"
  "sendMail parsing_runtime = (\<lambda>t m. Resolves example_info)"
  by (simp_all add: parsing_runtime_def)

text \<open>
  C10 says that a POST whose parsed body is an empty object and whose raw stream is empty,
  for instance because the framework has already consumed it, is answered with a 500
  error. A stream that has already been consumed emits no \<^verbatim>\<open>end\<close> event to the listeners
  that \<^verbatim>\<open>getRawBody\<close> attaches afterwards, so its promise never settles: the stream is
  read, nothing else happens, and the request gets no response at all.
\<close>

theorem consumed_stream_gets_no_response:
  "handler example_env parsing_runtime (stream_request [] NoEvent) = ([ReadStream], None)"
  by (simp add: handler_def try_block_def read_body_cases)

text \<open>
  C10, amended. When the framework hands over an empty object as the parsed body of a POST
  request, the handler does not use it: the run is the run of the same request with no
  parsed body at all. \<^verbatim>\<open>getRawBody\<close> reads the request stream and delivers the
  concatenation of its chunks when the stream emits \<^verbatim>\<open>end\<close>, the stream's error when it
  emits \<^verbatim>\<open>error\<close>, and nothing when it emits neither; the body is \<^verbatim>\<open>JSON.parse\<close> of the
  text delivered. When the stream ends without data, \<^verbatim>\<open>JSON.parse\<close> is applied to the
  empty text and throws, and the request is answered with status 500 (whether or not
  credentials are configured); no transport is created and nothing is sent. With
  credentials, the first action is the read of the stream, and then:
  if the stream never emits \<^verbatim>\<open>end\<close> or \<^verbatim>\<open>error\<close>, the request gets no response;
  if it emits \<^verbatim>\<open>error\<close>, or if it ends and \<^verbatim>\<open>JSON.parse\<close> throws on the text of its
  chunks, the exception is logged and answered with the error response (status 500) that
  carries its message;
  if it ends and the text of its chunks parses to a non-empty object, the run continues as
  the run of a request whose parsed body is that object.
\<close>

theorem empty_body_object_reads_the_stream:
  assumes "req_method req = ''POST''" and "body req = JObject []"
  shows "handler e rt req = handler e rt (req\<lparr>body := JUndefined\<rparr>)
       \<and> getRawBody req =
           ([ReadStream],
            case ending (stream req) of
              EndEvent \<Rightarrow> Resolves (concat (chunks (stream req)))
            | ErrorEvent err \<Rightarrow> Rejects err
            | NoEvent \<Rightarrow> Pending)
       \<and> read_body rt req = io_bind (getRawBody req) (\<lambda>raw. io_lift (JSON_parse rt raw))
       \<and> (ending (stream req) = EndEvent \<and> concat (chunks (stream req)) = [] \<longrightarrow>
            (\<exists>r. snd (handler e rt req) = Some r \<and> status r = 500)
            \<and> (\<forall>ev \<in> set (fst (handler e rt req)).
                  ev = ReadStream \<or> (\<exists>text err. ev = ConsoleError text err))
            \<and> (ToBoolean (user e) \<and> ToBoolean (pass e) \<longrightarrow>
                  handler e rt req =
                    ([ReadStream,
                      ConsoleError ''api/send-email error''
                        (Some (SyntaxError ''Unexpected end of JSON input''))],
                     Some (error_response (SyntaxError ''Unexpected end of JSON input'')))))
       \<and> (ToBoolean (user e) \<and> ToBoolean (pass e) \<longrightarrow>
            (\<exists>evs. fst (handler e rt req) = ReadStream # evs)
            \<and> (ending (stream req) = NoEvent \<longrightarrow> handler e rt req = ([ReadStream], None))
            \<and> (\<forall>err. ending (stream req) = ErrorEvent err \<longrightarrow>
                  handler e rt req =
                    ([ReadStream, ConsoleError ''api/send-email error'' (Some err)],
                     Some (error_response err)))
            \<and> (\<forall>err. ending (stream req) = EndEvent \<and>
                     JSON_parse rt (concat (chunks (stream req))) = Inl err \<longrightarrow>
                  handler e rt req =
                    ([ReadStream, ConsoleError ''api/send-email error'' (Some err)],
                     Some (error_response err)))
            \<and> (\<forall>parsed. ending (stream req) = EndEvent \<and>
                        JSON_parse rt (concat (chunks (stream req))) = Inr parsed \<and>
                        ToBoolean parsed \<and> Object_keys parsed \<noteq> [] \<longrightarrow>
                  handler e rt req =
                    (ReadStream # fst (handler e rt (req\<lparr>body := parsed\<rparr>)),
                     snd (handler e rt (req\<lparr>body := parsed\<rparr>)))))"
proof (intro conjI impI allI)
  have rb: "read_body rt req = read_body rt (req\<lparr>body := JUndefined\<rparr>)"
    using assms by (simp add: read_body_cases split: stream_end.splits sum.splits)
  then show "handler e rt req = handler e rt (req\<lparr>body := JUndefined\<rparr>)"
    using assms by (simp add: handler_def try_block_def)
  show "getRawBody req =
           ([ReadStream],
            case ending (stream req) of
              EndEvent \<Rightarrow> Resolves (concat (chunks (stream req)))
            | ErrorEvent err \<Rightarrow> Rejects err
            | NoEvent \<Rightarrow> Pending)"
    by (simp add: getRawBody_def io_await_def)
  show "read_body rt req = io_bind (getRawBody req) (\<lambda>raw. io_lift (JSON_parse rt raw))"
    using assms by (simp add: read_body_def)
  have rejected: "handler e rt req =
        ([ReadStream, ConsoleError ''api/send-email error'' (Some err)],
         Some (error_response err))"
    if "read_body rt req = ([ReadStream], Rejects err)"
      and "ToBoolean (user e) \<and> ToBoolean (pass e)" for err
  proof -
    have "try_block e rt req = ([ReadStream], Rejects err)"
      by (simp add: try_block_def that(1))
    then show ?thesis
      using assms that(2) by (simp add: handler_def)
  qed
  {
    assume empty: "ending (stream req) = EndEvent \<and> concat (chunks (stream req)) = []"
    then have rb1: "read_body rt req =
        ([ReadStream], Rejects (SyntaxError ''Unexpected end of JSON input''))"
      using assms by (simp add: read_body_cases JSON_parse_def)
    then have tb: "try_block e rt req =
        ([ReadStream], Rejects (SyntaxError ''Unexpected end of JSON input''))"
      by (simp add: try_block_def)
    show "\<exists>r. snd (handler e rt req) = Some r \<and> status r = 500"
      using assms by (simp add: handler_def tb error_response_def)
    show "\<forall>ev \<in> set (fst (handler e rt req)).
            ev = ReadStream \<or> (\<exists>text err. ev = ConsoleError text err)"
      using assms by (simp add: handler_def tb)
    {
      assume cred: "ToBoolean (user e) \<and> ToBoolean (pass e)"
      show "handler e rt req =
              ([ReadStream,
                ConsoleError ''api/send-email error''
                  (Some (SyntaxError ''Unexpected end of JSON input''))],
               Some (error_response (SyntaxError ''Unexpected end of JSON input'')))"
        using rb1 cred by (rule rejected)
    }
  }
  {
    assume cred: "ToBoolean (user e) \<and> ToBoolean (pass e)"
    have first: "\<exists>evs0 r. read_body rt req = (ReadStream # evs0, r)"
      using assms by (simp add: read_body_cases split: stream_end.splits sum.splits)
    then obtain evs0 r where rb0: "read_body rt req = (ReadStream # evs0, r)"
      by blast
    obtain evs r' where tb: "try_block e rt req = (ReadStream # evs, r')"
      by (cases r; cases "try_block e rt req")
         (auto simp: try_block_def rb0 io_bind_def split: prod.splits)
    show "\<exists>evs. fst (handler e rt req) = ReadStream # evs"
      using assms cred by (cases r') (simp_all add: handler_def tb)
    {
      assume "ending (stream req) = NoEvent"
      then have "read_body rt req = ([ReadStream], Pending)"
        using assms by (simp add: read_body_cases)
      then have "try_block e rt req = ([ReadStream], Pending)"
        by (simp add: try_block_def)
      then show "handler e rt req = ([ReadStream], None)"
        using assms cred by (simp add: handler_def)
    }
    {
      fix err
      assume "ending (stream req) = ErrorEvent err"
      then have "read_body rt req = ([ReadStream], Rejects err)"
        using assms by (simp add: read_body_cases)
      then show "handler e rt req =
                   ([ReadStream, ConsoleError ''api/send-email error'' (Some err)],
                    Some (error_response err))"
        using cred by (rule rejected)
    }
    {
      fix err
      assume "ending (stream req) = EndEvent \<and>
              JSON_parse rt (concat (chunks (stream req))) = Inl err"
      then have "read_body rt req = ([ReadStream], Rejects err)"
        using assms by (simp add: read_body_cases)
      then show "handler e rt req =
                   ([ReadStream, ConsoleError ''api/send-email error'' (Some err)],
                    Some (error_response err))"
        using cred by (rule rejected)
    }
    {
      fix parsed
      assume ok: "ending (stream req) = EndEvent \<and>
                  JSON_parse rt (concat (chunks (stream req))) = Inr parsed \<and>
                  ToBoolean parsed \<and> Object_keys parsed \<noteq> []"
      then have rb1: "read_body rt req = ([ReadStream], Resolves parsed)"
        using assms by (simp add: read_body_cases)
      have rb2: "read_body rt (req\<lparr>body := parsed\<rparr>) = ([], Resolves parsed)"
        using ok by (simp add: read_body_cases)
      obtain evs' r where tb2: "try_block e rt (req\<lparr>body := parsed\<rparr>) = (evs', r)"
        by (cases "try_block e rt (req\<lparr>body := parsed\<rparr>)")
      have tb1: "try_block e rt req = (ReadStream # evs', r)"
        using try_block_read [OF rb1 rb2, of e] by (simp add: tb2)
      show "handler e rt req =
              (ReadStream # fst (handler e rt (req\<lparr>body := parsed\<rparr>)),
               snd (handler e rt (req\<lparr>body := parsed\<rparr>)))"
        using assms cred by (cases r) (simp_all add: handler_def tb1 tb2)
    }
  }
qed

theorem empty_body_object_reads_the_stream_witness:
  \<open>handler example_env (example_runtime (Resolves ()) (Resolves example_info))
      (example_request ''POST'' (JObject []))
     = ([ReadStream,
         ConsoleError ''api/send-email error''
           (Some (SyntaxError ''Unexpected end of JSON input''))],
        Some \<lparr>status = 500, headers = [],
              json = JObject [(''error'', JString ''Unexpected end of JSON input'')]\<rparr>)
   \<and> handler example_env (example_runtime (Resolves ()) (Resolves example_info))
        (example_request ''POST'' (JObject []))
     = handler example_env (example_runtime (Resolves ()) (Resolves example_info))
         (example_request ''POST'' JUndefined)
   \<and> getRawBody (stream_request [''{"orderMeta":{"order_number":"42"},'', ''"items":[]}'']
                   EndEvent)
     = ([ReadStream], Resolves example_text)
   \<and> handler example_env parsing_runtime (stream_request [''{"items"''] NoEvent)
     = ([ReadStream], None)
   \<and> handler example_env parsing_runtime
        (stream_request [''{"items"''] (ErrorEvent (Error ''aborted'')))
     = ([ReadStream, ConsoleError ''api/send-email error'' (Some (Error ''aborted''))],
        Some \<lparr>status = 500, headers = [],
              json = JObject [(''error'', JString ''aborted'')]\<rparr>)
   \<and> handler example_env parsing_runtime (stream_request [''{"items"''] EndEvent)
     = ([ReadStream,
         ConsoleError ''api/send-email error'' (Some (SyntaxError ''Unexpected token''))],
        Some \<lparr>status = 500, headers = [],
              json = JObject [(''error'', JString ''Unexpected token'')]\<rparr>)
   \<and> handler example_env parsing_runtime
        (stream_request [''{"orderMeta":{"order_number":"42"},'', ''"items":[]}''] EndEvent)
     = ([ReadStream, CreateTransport (transporter example_env),
         TransportVerify (transporter example_env),
         TransportSendMail (transporter example_env)
           (mailOptions example_env ''shop@example.com'' ''42''
              (document_html ''42'' [] [] [] [] ''0'' []))],
        Some \<lparr>status = 200, headers = [],
              json = JObject [(''ok'', JBool True), (''messageId'', JString ''<1@example.com>''),
                              (''accepted'', JArray [JString ''shop@example.com''])]\<rparr>)\<close>
proof -
  have "req_method (example_request ''POST'' (JObject [])) = ''POST''"
    and "body (example_request ''POST'' (JObject [])) = JObject []"
    by simp_all
  note fact = empty_body_object_reads_the_stream
         [OF this, of example_env "example_runtime (Resolves ()) (Resolves example_info)"]
  from fact have same:
    "handler example_env (example_runtime (Resolves ()) (Resolves example_info))
        (example_request ''POST'' (JObject []))
     = handler example_env (example_runtime (Resolves ()) (Resolves example_info))
         ((example_request ''POST'' (JObject []))\<lparr>body := JUndefined\<rparr>)"
    by (rule conjunct1)
  from fact [THEN conjunct2, THEN conjunct2, THEN conjunct2, THEN conjunct1] have run:
    "handler example_env (example_runtime (Resolves ()) (Resolves example_info))
        (example_request ''POST'' (JObject []))
     = ([ReadStream,
         ConsoleError ''api/send-email error''
           (Some (SyntaxError ''Unexpected end of JSON input''))],
        Some (error_response (SyntaxError ''Unexpected end of JSON input'')))"
    by simp
  have upd: "(example_request ''POST'' (JObject []))\<lparr>body := JUndefined\<rparr>
          = example_request ''POST'' JUndefined"
    by (simp add: example_request_def)
  have post: "req_method (stream_request cs en) = ''POST''"
    and empty: "body (stream_request cs en) = JObject []" for cs en
    by simp_all
  note stream =
    empty_body_object_reads_the_stream [OF post empty, of example_env parsing_runtime]
  note reads = stream [THEN conjunct2, THEN conjunct1]
  note cases = stream [THEN conjunct2, THEN conjunct2, THEN conjunct2, THEN conjunct2,
                       THEN mp, OF conjI [OF example_env_credentials(1,2)]]
  have raw: \<open>getRawBody (stream_request [''{"orderMeta":{"order_number":"42"},'',
                                         ''"items":[]}''] EndEvent)
               = ([ReadStream], Resolves example_text)\<close>
    using reads [of \<open>[''{"orderMeta":{"order_number":"42"},'', ''"items":[]}'']\<close> EndEvent]
    by (simp add: example_text_def)
  have pending: \<open>handler example_env parsing_runtime (stream_request [''{"items"''] NoEvent)
                   = ([ReadStream], None)\<close>
    using cases [of \<open>[''{"items"'']\<close> NoEvent, THEN conjunct2, THEN conjunct1] by simp
  have failed: \<open>handler example_env parsing_runtime
                   (stream_request [''{"items"''] (ErrorEvent (Error ''aborted'')))
                  = ([ReadStream,
                      ConsoleError ''api/send-email error'' (Some (Error ''aborted''))],
                     Some (error_response (Error ''aborted'')))\<close>
    using cases [of \<open>[''{"items"'']\<close> \<open>ErrorEvent (Error ''aborted'')\<close>,
                 THEN conjunct2, THEN conjunct2, THEN conjunct1] by simp
  have malformed: \<open>handler example_env parsing_runtime (stream_request [''{"items"''] EndEvent)
                     = ([ReadStream,
                         ConsoleError ''api/send-email error''
                           (Some (SyntaxError ''Unexpected token''))],
                        Some (error_response (SyntaxError ''Unexpected token'')))\<close>
    using cases [of \<open>[''{"items"'']\<close> EndEvent,
                 THEN conjunct2, THEN conjunct2, THEN conjunct2, THEN conjunct1,
                 THEN spec, of \<open>SyntaxError ''Unexpected token''\<close>]
    by (simp add: JSON_parse_def example_text_def)
  let ?order = \<open>stream_request [''{"orderMeta":{"order_number":"42"},'', ''"items":[]}'']
                  EndEvent\<close>
  have parsed: "JSON_parse parsing_runtime (concat (chunks (stream ?order))) = Inr example_body"
    by (simp add: JSON_parse_def example_text_def)
  have keys: "ToBoolean example_body \<and> Object_keys example_body \<noteq> []"
    by (simp add: example_body_def)
  have direct: "handler example_env parsing_runtime (?order\<lparr>body := example_body\<rparr>)
        = ([CreateTransport (transporter example_env),
            TransportVerify (transporter example_env),
            TransportSendMail (transporter example_env)
              (mailOptions example_env ''shop@example.com'' ''42''
                 (document_html ''42'' [] [] [] [] ''0'' []))],
           Some (success_response example_info))"
    by (simp add: handler_def try_block_def read_body_cases keys example_body_fields
          example_body_html verify_step_cases optional_get_def io_return_def)
  have order: "handler example_env parsing_runtime ?order
        = (ReadStream # fst (handler example_env parsing_runtime (?order\<lparr>body := example_body\<rparr>)),
           snd (handler example_env parsing_runtime (?order\<lparr>body := example_body\<rparr>)))"
    using cases [of \<open>[''{"orderMeta":{"order_number":"42"},'', ''"items":[]}'']\<close> EndEvent,
                 THEN conjunct2, THEN conjunct2, THEN conjunct2, THEN conjunct2,
                 THEN spec, of example_body] parsed keys
    by simp
  have sent: "handler example_env parsing_runtime ?order
        = ([ReadStream, CreateTransport (transporter example_env),
            TransportVerify (transporter example_env),
            TransportSendMail (transporter example_env)
              (mailOptions example_env ''shop@example.com'' ''42''
                 (document_html ''42'' [] [] [] [] ''0'' []))],
           Some (success_response example_info))"
    unfolding order direct by simp
  have r1: "error_response (SyntaxError ''Unexpected end of JSON input'')
              = \<lparr>status = 500, headers = [],
                 json = JObject [(''error'', JString ''Unexpected end of JSON input'')]\<rparr>"
    and r2: "error_response (Error ''aborted'')
              = \<lparr>status = 500, headers = [], json = JObject [(''error'', JString ''aborted'')]\<rparr>"
    and r3: "error_response (SyntaxError ''Unexpected token'')
              = \<lparr>status = 500, headers = [],
                 json = JObject [(''error'', JString ''Unexpected token'')]\<rparr>"
    and r4: "success_response example_info
              = \<lparr>status = 200, headers = [],
                 json = JObject [(''ok'', JBool True), (''messageId'', JString ''<1@example.com>''),
                                 (''accepted'', JArray [JString ''shop@example.com''])]\<rparr>"
    by (simp_all add: error_response_def success_response_def example_info_def)
  show ?thesis
    by (intro conjI)
       (rule run [unfolded r1], rule same [unfolded upd], rule raw, rule pending,
        rule failed [unfolded r2], rule malformed [unfolded r3], rule sent [unfolded r4])
qed

section \<open>Facts about rendering\<close>

lemma escapeHtml_Inr_iff:
  "escapeHtml (js_or v (JString [])) = Inr r \<longleftrightarrow>
     (\<exists>s. ToString (js_or v (JString [])) = Inr s \<and> r = replace_special s)"
  by (cases v) (auto simp: escapeHtml_def js_or_def bindE_Inr_iff)

lemma escapeHtml_JString [simp]: "escapeHtml (JString s) = Inr (replace_special s)"
  by (simp add: escapeHtml_def)

lemma row_Inr_iff:
  "row it = Inr r \<longleftrightarrow>
     (\<exists>t ts q qs p ps.
        Get it ''title'' = Inr t \<and> ToString (js_or t (JString [])) = Inr ts \<and>
        Get it ''qty'' = Inr q \<and> ToString (js_or q (JNumber (Fin 1))) = Inr qs \<and>
        Get it ''price'' = Inr p \<and> ToString (js_or p (JString [])) = Inr ps \<and>
        r = row_html (replace_special ts) (replace_special qs) (replace_special ps @ '' XOF''))"
  unfolding row_def bindE_Inr_iff escapeHtml_Inr_iff escapeHtml_JString
  by (simp add: conj_commute conj_left_commute) blast

lemma mapE_Inr_iff:
  "mapE f xs = Inr ys \<longleftrightarrow> list_all2 (\<lambda>x y. f x = Inr y) xs ys"
proof (induction xs arbitrary: ys)
  case Nil
  then show ?case by auto
next
  case (Cons x xs)
  then show ?case
    by (cases ys) (auto simp: bindE_Inr_iff)
qed

lemma array_method_Inr_iff [simp]: "array_method name v = Inr xs \<longleftrightarrow> v = JArray xs"
  by (cases v) (simp_all add: array_method_def)

lemma rows_Inr_iff:
  "rows items = Inr r \<longleftrightarrow>
     (\<exists>xs rs. js_or items (JArray []) = JArray xs \<and>
              list_all2 (\<lambda>x y. row x = Inr y) xs rs \<and> r = concat rs)"
  by (auto simp: rows_def bindE_Inr_iff mapE_Inr_iff)

lemma line_amount_Inr_iff:
  "line_amount i = Inr a \<longleftrightarrow>
     (\<exists>p pn q qn.
        Get i ''price'' = Inr p \<and> ToNumber (js_or p (JNumber (Fin 0))) = Inr pn \<and>
        Get i ''qty'' = Inr q \<and> ToNumber (js_or q (JNumber (Fin 1))) = Inr qn \<and>
        a = num_mul pn qn)"
  unfolding line_amount_def bindE_Inr_iff by auto

lemma foldE_amounts:
  "foldE (\<lambda>s i. bindE (line_amount i) (\<lambda>a. Inr (num_add s a))) s0 xs = Inr t \<longleftrightarrow>
     (\<exists>as. list_all2 (\<lambda>x a. line_amount x = Inr a) xs as \<and> t = foldl num_add s0 as)"
proof (induction xs arbitrary: s0)
  case Nil
  then show ?case by auto
next
  case (Cons x xs)
  show ?case
  proof
    assume "foldE (\<lambda>s i. bindE (line_amount i) (\<lambda>a. Inr (num_add s a))) s0 (x # xs) = Inr t"
    then obtain a where a: "line_amount x = Inr a"
      and rest: "foldE (\<lambda>s i. bindE (line_amount i) (\<lambda>a. Inr (num_add s a))) (num_add s0 a) xs = Inr t"
      by (auto simp: bindE_Inr_iff)
    from rest Cons.IH obtain as
      where "list_all2 (\<lambda>x a. line_amount x = Inr a) xs as" and "t = foldl num_add (num_add s0 a) as"
      by blast
    with a have "list_all2 (\<lambda>x a. line_amount x = Inr a) (x # xs) (a # as) \<and> t = foldl num_add s0 (a # as)"
      by simp
    then show "\<exists>as. list_all2 (\<lambda>x a. line_amount x = Inr a) (x # xs) as \<and> t = foldl num_add s0 as"
      by blast
  next
    assume "\<exists>as. list_all2 (\<lambda>x a. line_amount x = Inr a) (x # xs) as \<and> t = foldl num_add s0 as"
    then obtain a as where "line_amount x = Inr a"
      and "list_all2 (\<lambda>x a. line_amount x = Inr a) xs as" and "t = foldl num_add (num_add s0 a) as"
      by (auto simp: list_all2_Cons1)
    with Cons.IH show "foldE (\<lambda>s i. bindE (line_amount i) (\<lambda>a. Inr (num_add s a))) s0 (x # xs) = Inr t"
      by (auto simp: bindE_Inr_iff)
  qed
qed

lemma total'_Inr_iff:
  "total' items = Inr t \<longleftrightarrow>
     (\<exists>xs as. js_or items (JArray []) = JArray xs \<and>
              list_all2 (\<lambda>x a. line_amount x = Inr a) xs as \<and> t = foldl num_add (Fin 0) as)"
  by (auto simp: total'_def bindE_Inr_iff foldE_amounts)

lemma buildHtml_structure:
  assumes "buildHtml om items = Inr h"
  shows "\<exists>xs rs as s1 s2 s3 s4 s5 v1 v2 v3 v4 v5.
           js_or items (JArray []) = JArray xs \<and>
           list_all2 (\<lambda>x y. row x = Inr y) xs rs \<and>
           list_all2 (\<lambda>x a. line_amount x = Inr a) xs as \<and>
           Get om ''order_number'' = Inr v1 \<and> ToString (js_or v1 (JString [])) = Inr s1 \<and>
           Get om ''order_name'' = Inr v2 \<and> ToString (js_or v2 (JString [])) = Inr s2 \<and>
           Get om ''phone'' = Inr v3 \<and> ToString (js_or v3 (JString [])) = Inr s3 \<and>
           Get om ''shipping_address'' = Inr v4 \<and> ToString (js_or v4 (JString [])) = Inr s4 \<and>
           Get om ''id'' = Inr v5 \<and> ToString (js_or v5 (JString [])) = Inr s5 \<and>
           h = document_html (replace_special s1) (replace_special s2) (replace_special s3)
                 (replace_special s4) (concat rs)
                 (replace_special (NumberToString (foldl num_add (Fin 0) as)))
                 (replace_special s5)"
proof -
  from assms obtain r t v1 e1 v2 e2 v3 e3 v4 e4 v5 s5
    where r: "rows items = Inr r" and t: "total' items = Inr t"
      and 1: "Get om ''order_number'' = Inr v1" "escapeHtml (js_or v1 (JString [])) = Inr e1"
      and 2: "Get om ''order_name'' = Inr v2" "escapeHtml (js_or v2 (JString [])) = Inr e2"
      and 3: "Get om ''phone'' = Inr v3" "escapeHtml (js_or v3 (JString [])) = Inr e3"
      and 4: "Get om ''shipping_address'' = Inr v4" "escapeHtml (js_or v4 (JString [])) = Inr e4"
      and 5: "Get om ''id'' = Inr v5" "ToString (js_or v5 (JString [])) = Inr s5"
      and h: "h = document_html e1 e2 e3 e4 r (replace_special (NumberToString t))
                    (replace_special s5)"
    unfolding buildHtml_def bindE_Inr_iff by auto
  from r obtain xs rs where xs: "js_or items (JArray []) = JArray xs"
    and rs: "list_all2 (\<lambda>x y. row x = Inr y) xs rs" and r': "r = concat rs"
    unfolding rows_Inr_iff by blast
  from t xs obtain as where as: "list_all2 (\<lambda>x a. line_amount x = Inr a) xs as"
    and t': "t = foldl num_add (Fin 0) as"
    unfolding total'_Inr_iff by auto
  from 1(2) obtain s1 where s1: "ToString (js_or v1 (JString [])) = Inr s1" "e1 = replace_special s1"
    unfolding escapeHtml_Inr_iff by blast
  from 2(2) obtain s2 where s2: "ToString (js_or v2 (JString [])) = Inr s2" "e2 = replace_special s2"
    unfolding escapeHtml_Inr_iff by blast
  from 3(2) obtain s3 where s3: "ToString (js_or v3 (JString [])) = Inr s3" "e3 = replace_special s3"
    unfolding escapeHtml_Inr_iff by blast
  from 4(2) obtain s4 where s4: "ToString (js_or v4 (JString [])) = Inr s4" "e4 = replace_special s4"
    unfolding escapeHtml_Inr_iff by blast
  show ?thesis
    apply (rule exI [of _ xs], rule exI [of _ rs], rule exI [of _ as])
    apply (rule exI [of _ s1], rule exI [of _ s2], rule exI [of _ s3], rule exI [of _ s4])
    apply (rule exI [of _ s5])
    apply (rule exI [of _ v1], rule exI [of _ v2], rule exI [of _ v3], rule exI [of _ v4])
    apply (rule exI [of _ v5])
    using xs rs as 1(1) 2(1) 3(1) 4(1) 5 s1 s2 s3 s4 h r' t' by simp
qed


lemma entities_only_plain: "CHR ''&'' \<notin> set s \<Longrightarrow> entities_only s"
  by (induction s) auto



lemma markup_escape_char: "c' \<in> set (escape_char c) \<Longrightarrow> \<not> markup_char c'"
  by (auto simp: escape_char_def markup_char_def split: if_splits)

lemma no_markup_replace_special: "c \<in> set (replace_special s) \<Longrightarrow> \<not> markup_char c"
  by (auto simp: replace_special_def dest: markup_escape_char)

lemma markup_replace_special [simp]: "filter markup_char (replace_special s) = []"
  by (auto simp: filter_empty_conv dest: no_markup_replace_special)













lemma field_text_Inr_iff:
  "field_text v k d = Inr s \<longleftrightarrow> (\<exists>x. Get v k = Inr x \<and> ToString (js_or x d) = Inr s)"
  by (simp add: field_text_def bindE_Inr_iff)

lemma row_cells_iff: "row it = Inr r \<longleftrightarrow> (\<exists>c. row_cells it c \<and> r = cells_html c)"
  unfolding row_Inr_iff row_cells_def cells_html_def field_text_Inr_iff
  by (simp add: split_paired_Ex) blast










lemma replace_special_plain: "list_all plain_char s \<Longrightarrow> replace_special s = s"
  by (induction s) (simp_all add: replace_special_def plain_char_def)

lemma digit_char_plain: "d < 10 \<Longrightarrow> plain_char (digit_char d)"
proof -
  assume "d < 10"
  then have "nat d < length ''0123456789''" by simp
  then have "digit_char d \<in> set ''0123456789''"
    unfolding digit_char_def by (rule nth_mem)
  then show ?thesis
    by (auto simp: plain_char_def escape_char_def)
qed

lemma digits10_plain: "list_all plain_char (digits10 n)"
proof (induction n rule: digits10.induct)
  case (1 n)
  show ?case
  proof (cases "n < 10")
    case True
    then show ?thesis
      by (subst digits10.simps) (simp add: digit_char_plain)
  next
    case False
    with "1.IH" have "list_all plain_char (digits10 (n div 10))" by simp
    moreover have "plain_char (digit_char (n mod 10))"
      by (rule digit_char_plain) simp
    ultimately show ?thesis
      using False by (subst digits10.simps) simp
  qed
qed

lemma list_all_take_drop:
  "list_all P xs \<Longrightarrow> list_all P (take n xs)" "list_all P xs \<Longrightarrow> list_all P (drop n xs)"
  by (auto simp: list_all_iff dest: in_set_takeD in_set_dropD)

lemma format_decimal_plain: "list_all plain_char (format_decimal t)"
proof -
  obtain k n s where t: "t = (k, n, s)" by (cases t)
  have p: "plain_char CHR ''0''" "plain_char CHR ''.''" "plain_char CHR ''e''"
    "plain_char CHR ''+''" "plain_char CHR ''-''"
    by (simp_all add: plain_char_def escape_char_def)
  show ?thesis
    unfolding t format_decimal_def
    by (simp add: Let_def digits10_plain list_all_take_drop p list_all_iff [of _ "replicate _ _"])
qed

lemma NumberToString_plain: "list_all plain_char (NumberToString n)"
  by (cases n)
     (simp_all add: NumberToString.simps(4) format_decimal_plain,
      simp_all add: plain_char_def escape_char_def)

lemma number_text_unchanged: "replace_special (NumberToString n) = NumberToString n"
  by (rule replace_special_plain) (rule NumberToString_plain)

lemma fl_zero [simp]: "fl 0 = Fin 0"
  by (simp add: fl_def)

lemma text_of_1: "NumberToString (Fin 1) = ''1''"
  by code_simp

lemmas render_defs =
  buildHtml_def rows_def row_def total'_def line_amount_def array_method_def
  replace_special_def escape_char_def

section \<open>Escaping\<close>




section \<open>Rows and their defaults\<close>

text \<open>
  C7, as the specification states it, fails: an entry without a price does not show the
  price 0. Its price cell holds the suffix alone.
\<close>

theorem missing_price_shows_no_zero:
  "row (JObject [(''title'', JString ''A'')]) = Inr (row_html ''A'' ''1'' '' XOF'')
   \<and> row_html ''A'' ''1'' '' XOF'' \<noteq> row_html ''A'' ''1'' ''0 XOF''"
  by (simp add: render_defs text_of_1 row_html_def)

text \<open>
  C7, amended. The row of an entry holds the escaped strings of its title, quantity and
  price, the price followed by the suffix \<^verbatim>\<open> XOF\<close>. A title that is missing or falsy
  shows as the empty string, a quantity that is missing or falsy as \<^verbatim>\<open>1\<close>, and a price
  that is missing or falsy as the empty string, so that the cell holds the suffix alone.
  A quantity or price that is truthy shows as its own string, number or not.
\<close>

theorem row_defaults:
  assumes "row it = Inr r"
  shows "\<exists>t q p.
           row_cells it (t, q, p) \<and>
           r = row_html (replace_special t) (replace_special q) (replace_special p @ '' XOF'') \<and>
           (\<forall>v. Get it ''title'' = Inr v \<and> \<not> ToBoolean v \<longrightarrow> t = []) \<and>
           (\<forall>v. Get it ''qty'' = Inr v \<and> \<not> ToBoolean v \<longrightarrow> q = ''1'') \<and>
           (\<forall>v. Get it ''price'' = Inr v \<and> \<not> ToBoolean v \<longrightarrow> p = []) \<and>
           (\<forall>v. Get it ''qty'' = Inr v \<and> ToBoolean v \<longrightarrow> ToString v = Inr q) \<and>
           (\<forall>v. Get it ''price'' = Inr v \<and> ToBoolean v \<longrightarrow> ToString v = Inr p)"
proof -
  from assms obtain c where c: "row_cells it c" and r: "r = cells_html c"
    unfolding row_cells_iff by (elim exE conjE)
  obtain t q p where tqp: "c = (t, q, p)"
    by (cases c)
  from c have cells: "field_text it ''title'' (JString []) = Inr t"
      "field_text it ''qty'' (JNumber (Fin 1)) = Inr q"
      "field_text it ''price'' (JString []) = Inr p"
    by (simp_all add: tqp row_cells_def)
  have "\<forall>v. Get it ''title'' = Inr v \<and> \<not> ToBoolean v \<longrightarrow> t = []"
    using cells(1) by (auto simp: field_text_def js_or_def)
  moreover have "\<forall>v. Get it ''qty'' = Inr v \<and> \<not> ToBoolean v \<longrightarrow> q = ''1''"
    using cells(2) by (auto simp: field_text_def js_or_def text_of_1)
  moreover have "\<forall>v. Get it ''price'' = Inr v \<and> \<not> ToBoolean v \<longrightarrow> p = []"
    using cells(3) by (auto simp: field_text_def js_or_def)
  moreover have "\<forall>v. Get it ''qty'' = Inr v \<and> ToBoolean v \<longrightarrow> ToString v = Inr q"
    using cells(2) by (auto simp: field_text_def js_or_def)
  moreover have "\<forall>v. Get it ''price'' = Inr v \<and> ToBoolean v \<longrightarrow> ToString v = Inr p"
    using cells(3) by (auto simp: field_text_def js_or_def)
  moreover have "row_cells it (t, q, p)"
    using c by (simp add: tqp)
  moreover have
    "r = row_html (replace_special t) (replace_special q) (replace_special p @ '' XOF'')"
    by (simp add: r tqp cells_html_def)
  ultimately show ?thesis
    by (intro exI [of _ t] exI [of _ q] exI [of _ p] conjI)
qed

lemma zero_quantity_row:
  "row (JObject [(''title'', JString ''A''), (''qty'', JNumber (Fin 0)), (''price'', JNull)])
     = Inr (row_html ''A'' ''1'' '' XOF'')"
  by (simp add: render_defs text_of_1)

theorem row_defaults_witness:
  "row (JObject [(''title'', JString ''A''), (''qty'', JNumber (Fin 0)), (''price'', JNull)])
     = Inr (row_html ''A'' ''1'' '' XOF'')
   \<and> (\<exists>t. row_cells
             (JObject [(''title'', JString ''A''), (''qty'', JNumber (Fin 0)), (''price'', JNull)])
             (t, ''1'', []))"
proof -
  from row_defaults [OF zero_quantity_row] obtain t q p
    where "row_cells
             (JObject [(''title'', JString ''A''), (''qty'', JNumber (Fin 0)), (''price'', JNull)])
             (t, q, p)"
      and "\<forall>v. Get (JObject [(''title'', JString ''A''), (''qty'', JNumber (Fin 0)),
                               (''price'', JNull)]) ''qty'' = Inr v \<and> \<not> ToBoolean v
               \<longrightarrow> q = ''1''"
      and "\<forall>v. Get (JObject [(''title'', JString ''A''), (''qty'', JNumber (Fin 0)),
                               (''price'', JNull)]) ''price'' = Inr v \<and> \<not> ToBoolean v
               \<longrightarrow> p = []"
    by (elim exE conjE)
  then have "row_cells
             (JObject [(''title'', JString ''A''), (''qty'', JNumber (Fin 0)), (''price'', JNull)])
             (t, ''1'', [])"
    by simp
  then show ?thesis
    using zero_quantity_row by (intro conjI exI [of _ t])
qed

section \<open>Entries that are not objects\<close>

text \<open>
  C9, as the specification states it, fails: \<^verbatim>\<open>null\<close> is a value that is not an object,
  and an entry \<^verbatim>\<open>null\<close> makes rendering throw, since reading its title throws.
\<close>

theorem null_entry_throws:
  "rows (JArray [JString ''x'', JNull])
     = Inl (TypeError (''Cannot read properties of null (reading '' @ [CHR 0x27] @ ''title''
                         @ [CHR 0x27] @ '')''))"
  by (simp add: render_defs text_of_1)

lemma primitive_row: "primitive x \<Longrightarrow> row x = Inr (row_html [] ''1'' '' XOF'')"
  by (cases x) (simp_all add: render_defs text_of_1)

lemma primitive_amount: "primitive x \<Longrightarrow> line_amount x = Inr (Fin 0)"
  by (cases x) (simp_all add: render_defs)

lemma primitive_rows:
  "list_all primitive xs \<Longrightarrow>
     mapE row xs = Inr (replicate (length xs) (row_html [] ''1'' '' XOF''))"
  by (induction xs) (simp_all add: primitive_row)

lemma primitive_total:
  "list_all primitive xs \<Longrightarrow>
     foldE (\<lambda>s i. bindE (line_amount i) (\<lambda>a. Inr (num_add s a))) (Fin 0) xs = Inr (Fin 0)"
  by (induction xs) (simp_all add: primitive_amount)

text \<open>
  C9, amended. When every entry of the array is a string, a number or a boolean, rendering
  does not throw on the entries: each of them is a row with an empty title, the quantity 1
  and an empty price, and counts 0 in the total. The document is rendered whenever it is
  rendered for the same order without entries; with an empty order it is the document of
  these rows and the total 0.
\<close>

theorem primitive_entries_are_rendered:
  assumes "list_all primitive xs"
  shows "rows (JArray xs) = Inr (concat (replicate (length xs) (row_html [] ''1'' '' XOF'')))
       \<and> total' (JArray xs) = Inr (Fin 0)
       \<and> ((\<exists>h. buildHtml orderMeta (JArray xs) = Inr h)
            \<longleftrightarrow> (\<exists>h. buildHtml orderMeta (JArray []) = Inr h))
       \<and> buildHtml (JObject []) (JArray xs)
            = Inr (document_html [] [] [] []
                     (concat (replicate (length xs) (row_html [] ''1'' '' XOF''))) ''0'' [])"
proof -
  have r: "rows (JArray xs) = Inr (concat (replicate (length xs) (row_html [] ''1'' '' XOF'')))"
    using assms by (simp add: rows_def array_method_def primitive_rows)
  have t: "total' (JArray xs) = Inr (Fin 0)"
    using assms by (simp add: total'_def array_method_def primitive_total)
  have r0: "rows (JArray []) = Inr []" and t0: "total' (JArray []) = Inr (Fin 0)"
    by (simp_all add: rows_def total'_def array_method_def)
  have "(\<exists>h. buildHtml orderMeta (JArray xs) = Inr h)
          \<longleftrightarrow> (\<exists>h. buildHtml orderMeta (JArray []) = Inr h)"
    by (simp add: buildHtml_def r t r0 t0 bindE_def split: sum.splits)
  moreover have "buildHtml (JObject []) (JArray xs)
            = Inr (document_html [] [] [] []
                     (concat (replicate (length xs) (row_html [] ''1'' '' XOF''))) ''0'' [])"
    unfolding buildHtml_def r t bindE_simps
    by (simp add: replace_special_def escape_char_def)
  ultimately show ?thesis
    using r t by (intro conjI)
qed

theorem primitive_entries_are_rendered_witness:
  "rows (JArray [JString ''abc'', JNumber (Fin 5), JBool True])
     = Inr (row_html [] ''1'' '' XOF'' @ row_html [] ''1'' '' XOF'' @ row_html [] ''1'' '' XOF'')
   \<and> total' (JArray [JString ''abc'', JNumber (Fin 5), JBool True]) = Inr (Fin 0)
   \<and> buildHtml (JObject []) (JArray [JString ''abc'', JNumber (Fin 5), JBool True])
       = Inr (document_html [] [] [] []
                (row_html [] ''1'' '' XOF'' @ row_html [] ''1'' '' XOF''
                   @ row_html [] ''1'' '' XOF'') ''0'' [])"
  using primitive_entries_are_rendered [of "[JString ''abc'', JNumber (Fin 5), JBool True]"]
  by (simp add: numeral_3_eq_3)

section \<open>The total\<close>

lemma text_of_NaN: "StringToNumber ''abc'' = NaN"
  by code_simp

lemma fl_1000: "fl 1000 = Fin 1000"
  by code_simp

lemma fl_2000: "fl 2000 = Fin 2000"
  by code_simp

lemma text_of_2: "NumberToString (Fin 2) = ''2''"
  by code_simp

lemma text_of_500: "NumberToString (Fin 500) = ''500''"
  by code_simp

lemma text_of_1000: "NumberToString (Fin 1000) = ''1000''"
  by code_simp

lemma text_of_2000: "NumberToString (Fin 2000) = ''2000''"
  by code_simp

text \<open>
  C1, as the specification states it, fails: a price that is present and is not a number
  does not count 0. The string \<^verbatim>\<open>abc\<close> is not falsy, so it is not replaced by the default;
  \<^verbatim>\<open>Number\<close> makes it NaN, and the total of the order is NaN where the specification says 0.
\<close>

theorem invalid_price_makes_total_NaN:
  "total' (JArray [JObject [(''title'', JString ''A''), (''qty'', JNumber (Fin 1)),
                            (''price'', JString ''abc'')]]) = Inr NaN
   \<and> claimed_total [JObject [(''title'', JString ''A''), (''qty'', JNumber (Fin 1)),
                              (''price'', JString ''abc'')]] = Fin 0
   \<and> buildHtml (JObject [])
         (JArray [JObject [(''title'', JString ''A''), (''qty'', JNumber (Fin 1)),
                           (''price'', JString ''abc'')]])
       = Inr (document_html [] [] [] [] (row_html ''A'' ''1'' ''abc XOF'') ''NaN'' [])"
  by (simp add: render_defs claimed_total_def claimed_number_def text_of_NaN text_of_1)

lemma ToNumber_js_or: "ToNumber (js_or v (JNumber d)) = counted d v"
  by (simp add: js_or_def counted_def)

text \<open>
  C1, amended. The total shown in the total row of a rendered document is the string of
  the sum, accumulated from 0 in the order of the array with the addition of JavaScript
  numbers, of one product per entry: \<^verbatim>\<open>Number\<close> of the price times \<^verbatim>\<open>Number\<close> of the
  quantity, where a price that is missing or falsy counts 0 and a quantity that is missing
  or falsy counts 1. A value that is present and not falsy is converted and not replaced,
  whether or not it is a number.
\<close>

theorem rendered_total:
  assumes "buildHtml orderMeta items = Inr h"
  shows "\<exists>xs amounts.
           js_or items (JArray []) = JArray xs \<and>
           list_all2 (\<lambda>it a. \<exists>p q pn qn.
                        Get it ''price'' = Inr p \<and> Get it ''qty'' = Inr q \<and>
                        counted (Fin 0) p = Inr pn \<and> counted (Fin 1) q = Inr qn \<and>
                        a = num_mul pn qn) xs amounts \<and>
           total' items = Inr (foldl num_add (Fin 0) amounts) \<and>
           (\<exists>a b c d r i.
              h = document_html a b c d r (NumberToString (foldl num_add (Fin 0) amounts)) i)"
proof -
  from buildHtml_structure [OF assms] obtain xs rs as s1 s2 s3 s4 s5
    where xs: "js_or items (JArray []) = JArray xs"
      and as: "list_all2 (\<lambda>x a. line_amount x = Inr a) xs as"
      and h: "h = document_html (replace_special s1) (replace_special s2) (replace_special s3)
                 (replace_special s4) (concat rs)
                 (replace_special (NumberToString (foldl num_add (Fin 0) as)))
                 (replace_special s5)"
    by (elim exE conjE)
  have amounts: "list_all2 (\<lambda>it a. \<exists>p q pn qn.
                        Get it ''price'' = Inr p \<and> Get it ''qty'' = Inr q \<and>
                        counted (Fin 0) p = Inr pn \<and> counted (Fin 1) q = Inr qn \<and>
                        a = num_mul pn qn) xs as"
    using as
  proof (rule list_all2_mono)
    fix it a
    assume "line_amount it = Inr a"
    then show "\<exists>p q pn qn.
                 Get it ''price'' = Inr p \<and> Get it ''qty'' = Inr q \<and>
                 counted (Fin 0) p = Inr pn \<and> counted (Fin 1) q = Inr qn \<and>
                 a = num_mul pn qn"
      unfolding line_amount_Inr_iff ToNumber_js_or by (elim exE conjE) (intro exI conjI)
  qed
  have t: "total' items = Inr (foldl num_add (Fin 0) as)"
    unfolding total'_Inr_iff using xs as by (intro exI conjI) simp_all
  have "\<exists>a b c d r i. h = document_html a b c d r (NumberToString (foldl num_add (Fin 0) as)) i"
    using h unfolding number_text_unchanged by (intro exI)
  with xs amounts t show ?thesis
    by (intro exI [of _ xs] exI [of _ as] conjI)
qed

lemma example_items_html:
  "buildHtml (JObject []) (JArray example_items)
     = Inr (document_html [] [] [] []
              (row_html ''A'' ''2'' ''500 XOF'' @ row_html ''B'' ''1'' ''1000 XOF'')
              ''2000'' [])"
  by (simp add: render_defs example_items_def fl_1000 fl_2000 text_of_1 text_of_2
        text_of_500 text_of_1000 text_of_2000)

theorem rendered_total_witness:
  "total' (JArray example_items) = Inr (Fin 2000)
   \<and> buildHtml (JObject []) (JArray example_items)
       = Inr (document_html [] [] [] []
                (row_html ''A'' ''2'' ''500 XOF'' @ row_html ''B'' ''1'' ''1000 XOF'')
                ''2000'' [])
   \<and> counted (Fin 0) JUndefined = Inr (Fin 0)
   \<and> counted (Fin 1) JUndefined = Inr (Fin 1)
   \<and> counted (Fin 1) (JNumber (Fin 0)) = Inr (Fin 1)
   \<and> counted (Fin 0) (JString ''abc'') = Inr NaN"
proof -
  from rendered_total [OF example_items_html] obtain xs amounts
    where xs: "js_or (JArray example_items) (JArray []) = JArray xs"
      and amounts: "list_all2 (\<lambda>it a. \<exists>p q pn qn.
                        Get it ''price'' = Inr p \<and> Get it ''qty'' = Inr q \<and>
                        counted (Fin 0) p = Inr pn \<and> counted (Fin 1) q = Inr qn \<and>
                        a = num_mul pn qn) xs amounts"
      and t: "total' (JArray example_items) = Inr (foldl num_add (Fin 0) amounts)"
    by (elim exE conjE)
  from xs have "xs = example_items"
    by simp
  with amounts have "amounts = [Fin 1000, Fin 1000]"
    by (auto simp: example_items_def list_all2_Cons1 counted_def fl_1000)
  with t have "total' (JArray example_items) = Inr (Fin 2000)"
    by (simp add: fl_1000 fl_2000)
  then show ?thesis
    using example_items_html by (simp add: counted_def text_of_NaN)
qed

end
